theory Spec2Isabelle
  imports
    Main
    "HOL-Library.AList"
    "HOL-Library.Char_ord"
    "HOL-Library.List_Lexorder"
begin

section \<open>Python values\<close>

text \<open>
  The messages handled by \<^verbatim>\<open>wappsto/connection/communication.py\<close> are JSON values:
  what \<^verbatim>\<open>json.loads\<close> returns and \<^verbatim>\<open>json.dumps\<close> accepts. A Python \<^verbatim>\<open>dict\<close> keeps
  its keys in insertion order, so an object is an association list (keys distinct);
  \<^verbatim>\<open>None\<close> is \<open>JNull\<close>. Floats do not occur in the code paths modelled here and are left
  out.
\<close>

datatype json =
    JNull
  | JBool bool
  | JInt int
  | JStr string
  | JArr "json list"
  | JObj "(string \<times> json) list"

text \<open>The exceptions that the modelled code can raise.\<close>

datatype error =
    AttributeError
  | TypeError
  | IndexError
  | KeyError
  | RecursionError
  | BadZipFile
  | FileNotFoundError
  | OverflowError

text \<open>
  \<^verbatim>\<open>obj.get(key)\<close>: on a dict the value or \<^verbatim>\<open>None\<close>; any other JSON value (\<^verbatim>\<open>None\<close>,
  \<^verbatim>\<open>str\<close>, \<^verbatim>\<open>int\<close>, \<^verbatim>\<open>bool\<close>, \<^verbatim>\<open>list\<close>) has no attribute \<^verbatim>\<open>get\<close>.
\<close>

fun py_get :: "json \<Rightarrow> string \<Rightarrow> error + json" where
  "py_get (JObj items) key = Inr (case map_of items key of None \<Rightarrow> JNull | Some v \<Rightarrow> v)"
| "py_get obj key = Inl AttributeError"

text \<open>\<^verbatim>\<open>obj.get(key, default)\<close>.\<close>

fun py_get_default :: "json \<Rightarrow> string \<Rightarrow> json \<Rightarrow> error + json" where
  "py_get_default (JObj items) key dflt =
     Inr (case map_of items key of None \<Rightarrow> dflt | Some v \<Rightarrow> v)"
| "py_get_default obj key dflt = Inl AttributeError"

text \<open>Truth value of a JSON value in an \<^verbatim>\<open>if\<close>.\<close>

fun py_truthy :: "json \<Rightarrow> bool" where
  "py_truthy JNull = False"
| "py_truthy (JBool b) = b"
| "py_truthy (JInt i) = (i \<noteq> 0)"
| "py_truthy (JStr s) = (s \<noteq> [])"
| "py_truthy (JArr xs) = (xs \<noteq> [])"
| "py_truthy (JObj items) = (items \<noteq> [])"

text \<open>
  Keys of a Python dict are hashable values compared with \<^verbatim>\<open>==\<close>: \<^verbatim>\<open>True\<close> and \<^verbatim>\<open>1\<close>
  are the same key; a list or a dict is unhashable, and using one as a key raises
  \<^verbatim>\<open>TypeError\<close>.
\<close>

datatype py_key = KNone | KInt int | KStr string

fun py_hash_key :: "json \<Rightarrow> error + py_key" where
  "py_hash_key JNull = Inr KNone"
| "py_hash_key (JBool b) = Inr (KInt (if b then 1 else 0))"
| "py_hash_key (JInt i) = Inr (KInt i)"
| "py_hash_key (JStr s) = Inr (KStr s)"
| "py_hash_key (JArr xs) = Inl TypeError"
| "py_hash_key (JObj items) = Inl TypeError"

text \<open>\<^verbatim>\<open>del d[key]\<close> raises \<^verbatim>\<open>KeyError\<close> when the key is absent.\<close>

definition py_del :: "'k \<Rightarrow> ('k \<times> 'v) list \<Rightarrow> error + ('k \<times> 'v) list" where
  "py_del key d = (if key \<in> fst ` set d then Inr (AList.delete key d) else Inl KeyError)"

text \<open>\<^verbatim>\<open>xs[n:]\<close> for a Python list, with a negative \<open>n\<close> counted from the end.\<close>

definition py_slice_from :: "int \<Rightarrow> 'a list \<Rightarrow> 'a list" where
  "py_slice_from n xs =
     (if 0 \<le> n then drop (nat n) xs else drop (nat (int (length xs) + n)) xs)"

text \<open>\<^verbatim>\<open>s.replace(old, new)\<close>: every non-overlapping occurrence, from the left.\<close>

function py_replace :: "string \<Rightarrow> string \<Rightarrow> string \<Rightarrow> string" where
  "py_replace old new s =
     (if old = [] then s
      else if s = [] then []
      else if take (length old) s = old
        then new @ py_replace old new (drop (length old) s)
        else hd s # py_replace old new (tl s))"
  by pat_completeness auto
termination
  by (relation "measure (\<lambda>(old, new, s). length s)") (auto simp: neq_Nil_conv)

text \<open>\<^verbatim>\<open>str(n)\<close> for a non-negative integer.\<close>

definition digit_char :: "nat \<Rightarrow> char" where
  "digit_char d = ''0123456789'' ! (d mod 10)"

function str_nat :: "nat \<Rightarrow> string" where
  "str_nat n = (if n < 10 then [digit_char n] else str_nat (n div 10) @ [digit_char (n mod 10)])"
  by pat_completeness auto
termination
  by (relation "measure id") auto

text \<open>
  \<^verbatim>\<open>math.fabs(n)\<close> for an integer \<open>n\<close> converts \<open>n\<close> to a float and takes the absolute
  value. The conversion rounds to the nearest float (53 significant bits, ties to the
  even mantissa) and raises \<^verbatim>\<open>OverflowError\<close> when the magnitude would reach \<open>2 ^ 1024\<close>.
  The float is a whole number and is held as that number, so \<^verbatim>\<open>int()\<close> of it is exact.
  \<open>float_exponent m\<close> is the number of low bits of \<open>m\<close> that do not fit into the mantissa.
\<close>

function float_exponent :: "int \<Rightarrow> nat" where
  "float_exponent m = (if m < 2 ^ 53 then 0 else Suc (float_exponent (m div 2)))"
  by pat_completeness auto
termination
  by (relation "measure nat") auto

definition py_float :: "int \<Rightarrow> error + int" where
  "py_float n =
     (let m = \<bar>n\<bar>;
          e = float_exponent m;
          q = m div 2 ^ e;
          r = m mod 2 ^ e;
          q' = (if 2 * r > 2 ^ e \<or> (2 * r = 2 ^ e \<and> odd q) then q + 1 else q);
          f = q' * 2 ^ e
      in if f \<ge> 2 ^ 1024 then Inl OverflowError else Inr (sgn n * f))"

definition py_fabs :: "int \<Rightarrow> error + int" where
  "py_fabs n = (case py_float n of Inl e \<Rightarrow> Inl e | Inr f \<Rightarrow> Inr \<bar>f\<bar>)"

subsection \<open>The regular expressions of \<^verbatim>\<open>message_log.py\<close>\<close>

text \<open>
  \<^verbatim>\<open>re.search(pattern, s)\<close> is true when some substring of \<open>s\<close> matches. The patterns in
  the source use character classes, \<^verbatim>\<open>.\<close>, alternation, the empty alternative and
  \<^verbatim>\<open>$\<close>. \<open>re_match r s\<close> lists what is left of \<open>s\<close> after each way of matching a prefix.
\<close>

datatype regex =
    Cls string
  | Dot
  | Eps
  | Eol
  | Seq regex regex
  | Alt regex regex

fun re_match :: "regex \<Rightarrow> string \<Rightarrow> string list" where
  "re_match (Cls cs) s = (case s of [] \<Rightarrow> [] | c # r \<Rightarrow> if c \<in> set cs then [r] else [])"
| "re_match Dot s = (case s of [] \<Rightarrow> [] | c # r \<Rightarrow> if c = CHR 0x0A then [] else [r])"
| "re_match Eps s = [s]"
| "re_match Eol s = (if s = [] \<or> s = [CHR 0x0A] then [s] else [])"
| "re_match (Seq a b) s = concat (map (re_match b) (re_match a s))"
| "re_match (Alt a b) s = re_match a s @ re_match b s"

fun re_search :: "regex \<Rightarrow> string \<Rightarrow> bool" where
  "re_search r [] = (re_match r [] \<noteq> [])"
| "re_search r (c # s) = (re_match r (c # s) \<noteq> [] \<or> re_search r s)"

definition seqs :: "regex list \<Rightarrow> regex" where
  "seqs rs = foldr Seq rs Eps"

definition digit :: regex where
  "digit = Cls ''0123456789''"

text \<open>\<^verbatim>\<open>"[0-9][0-9][0-9][0-9]-((0|)[0-9]|1[0-2])-((|1|2)[0-9]|3[0-1])"\<close>\<close>

definition log_name_re :: regex where
  "log_name_re =
     seqs [digit, digit, digit, digit, Cls ''-'',
           Alt (Seq (Alt (Cls ''0'') Eps) digit) (Seq (Cls ''1'') (Cls ''012'')),
           Cls ''-'',
           Alt (Seq (Alt Eps (Alt (Cls ''1'') (Cls ''2''))) digit) (Seq (Cls ''3'') (Cls ''01''))]"

text \<open>\<^verbatim>\<open>".txt$"\<close> and \<^verbatim>\<open>".zip$"\<close> (the dot is not escaped in the source).\<close>

definition txt_re :: regex where
  "txt_re = seqs [Dot, Cls ''t'', Cls ''x'', Cls ''t'', Eol]"

definition zip_re :: regex where
  "zip_re = seqs [Dot, Cls ''z'', Cls ''i'', Cls ''p'', Eol]"

section \<open>Stripping \<^verbatim>\<open>None\<close> values: \<^verbatim>\<open>ClientSocket.get_object_without_none_values\<close>\<close>

text \<open>
  The method mutates a dict in place. It walks a snapshot of the items; a key is deleted
  when its value is \<^verbatim>\<open>None\<close>, or is a dict or a list that is empty after the recursive
  call. The model returns the items that remain, in order.

  For a list value the source runs
  \<^verbatim>\<open>
    for val_element in val:
        self.get_object_without_none_values(val_element)
        if len(val_element) == 0:
            val.remove(val_element)
  \<close>
  A Python \<^verbatim>\<open>for\<close> over a list reads \<^verbatim>\<open>val[i]\<close> for \<open>i = 0, 1, \<dots>\<close> until \<open>i\<close> reaches
  the current length, and \<^verbatim>\<open>val.remove(x)\<close> deletes the first element equal to \<open>x\<close>. In
  \<open>strip_list_loop done todo\<close> the list is \<open>done @ todo\<close> and \<open>i = length done\<close>. When the
  element at \<open>i\<close> has become \<^verbatim>\<open>{}\<close>, the first \<^verbatim>\<open>{}\<close> of the list is removed (it lies at
  or before \<open>i\<close>); the elements behind move one place down and the next index \<open>i + 1\<close>
  steps over the element that followed. An element that is not a dict has no
  \<^verbatim>\<open>items\<close>: \<^verbatim>\<open>AttributeError\<close>.
\<close>

fun get_object_without_none_values :: "(string \<times> json) list \<Rightarrow> error + (string \<times> json) list"
  and strip_list_loop :: "json list \<Rightarrow> json list \<Rightarrow> error + json list"
where
  "get_object_without_none_values [] = Inr []"
| "get_object_without_none_values ((key, JNull) # items) =
     get_object_without_none_values items"
| "get_object_without_none_values ((key, JObj val) # items) =
     (case get_object_without_none_values val of
        Inl e \<Rightarrow> Inl e
      | Inr val' \<Rightarrow>
          (case get_object_without_none_values items of
             Inl e \<Rightarrow> Inl e
           | Inr items' \<Rightarrow>
               Inr (if length val' = 0 then items' else (key, JObj val') # items')))"
| "get_object_without_none_values ((key, JArr val) # items) =
     (case strip_list_loop [] val of
        Inl e \<Rightarrow> Inl e
      | Inr val' \<Rightarrow>
          (case get_object_without_none_values items of
             Inl e \<Rightarrow> Inl e
           | Inr items' \<Rightarrow>
               Inr (if length val' = 0 then items' else (key, JArr val') # items')))"
| "get_object_without_none_values ((key, val) # items) =
     (case get_object_without_none_values items of
        Inl e \<Rightarrow> Inl e
      | Inr items' \<Rightarrow> Inr ((key, val) # items'))"
| "strip_list_loop done [] = Inr done"
| "strip_list_loop done (JObj val_element # rest) =
     (case get_object_without_none_values val_element of
        Inl e \<Rightarrow> Inl e
      | Inr val_element' \<Rightarrow>
          if length val_element' = 0
          then (case rest of
                  [] \<Rightarrow> Inr (remove1 (JObj []) (done @ [JObj val_element']))
                | skipped # rest' \<Rightarrow>
                    strip_list_loop
                      (remove1 (JObj []) (done @ [JObj val_element']) @ [skipped]) rest')
          else strip_list_loop (done @ [JObj val_element']) rest)"
| "strip_list_loop done (val_element # rest) = Inl AttributeError"

section \<open>The offline log: \<^verbatim>\<open>wappsto/connection/message_log.py\<close>\<close>

text \<open>
  What the modelled code takes from the Python runtime and from its surroundings:
  \<^verbatim>\<open>json.dumps\<close>, \<^verbatim>\<open>sys.getsizeof\<close> on a \<^verbatim>\<open>str\<close> (the size of the string object in
  memory, which depends on the interpreter), the bytes of a zip archive with given
  members, the number of nested calls left before \<^verbatim>\<open>RecursionError\<close>, the date
  \<^verbatim>\<open>datetime.datetime.now()\<close> returns (year, month, day), and whether a write to the
  socket succeeds or raises \<^verbatim>\<open>OSError\<close>.
\<close>

record env =
  json_dumps :: "json \<Rightarrow> string"
  getsizeof :: "string \<Rightarrow> nat"
  zip_bytes :: "(string \<times> string) list \<Rightarrow> string"
  recursion_limit :: nat
  now :: "nat \<times> nat \<times> nat"
  socket_send_ok :: bool

datatype log_level = DEBUG | INFO | WARNING | ERROR

text \<open>A record of the \<^verbatim>\<open>logging\<close> module: level, text, and the object formatted into it.\<close>

type_synonym log_record = "log_level \<times> string \<times> json option"

text \<open>
  The directory at \<^verbatim>\<open>log_location\<close>: its files in \<^verbatim>\<open>os.listdir\<close> order, each a text file
  or a zip archive (member names and contents); \<open>None\<close> when the directory does not
  exist. Sub-directories and symbolic links are not modelled.
\<close>

datatype file_content = Plain string | Archive "(string \<times> string) list"

type_synonym directory = "(string \<times> file_content) list"

definition REMOVE_OLD :: int where
  "REMOVE_OLD = 1"

definition REMOVE_RECENT :: int where
  "REMOVE_RECENT = 2"

record message_log =
  log_offline :: bool
  log_location :: "directory option"
  log_data_limit :: int
  limit_action :: int
  lines_to_remove :: int
  ml_wapp_log :: "log_record list"

definition raw_bytes :: "env \<Rightarrow> file_content \<Rightarrow> string" where
  "raw_bytes e c = (case c of Plain s \<Rightarrow> s | Archive members \<Rightarrow> zip_bytes e members)"

definition os_listdir :: "directory option \<Rightarrow> error + string list" where
  "os_listdir d = (case d of None \<Rightarrow> Inl FileNotFoundError | Some files \<Rightarrow> Inr (map fst files))"

definition os_path_isfile :: "directory option \<Rightarrow> string \<Rightarrow> bool" where
  "os_path_isfile d file_name =
     (case d of None \<Rightarrow> False | Some files \<Rightarrow> file_name \<in> fst ` set files)"

definition fs_read :: "directory option \<Rightarrow> string \<Rightarrow> error + file_content" where
  "fs_read d file_name =
     (case d of
        None \<Rightarrow> Inl FileNotFoundError
      | Some files \<Rightarrow>
          (case map_of files file_name of None \<Rightarrow> Inl FileNotFoundError | Some c \<Rightarrow> Inr c))"

definition fs_write :: "directory option \<Rightarrow> string \<Rightarrow> file_content \<Rightarrow> error + directory option" where
  "fs_write d file_name c =
     (case d of
        None \<Rightarrow> Inl FileNotFoundError
      | Some files \<Rightarrow> Inr (Some (AList.update file_name c files)))"

definition os_remove :: "directory option \<Rightarrow> string \<Rightarrow> error + directory option" where
  "os_remove d file_name =
     (case d of
        None \<Rightarrow> Inl FileNotFoundError
      | Some files \<Rightarrow>
          if file_name \<in> fst ` set files then Inr (Some (AList.delete file_name files))
          else Inl FileNotFoundError)"

text \<open>\<^verbatim>\<open>file.readlines()\<close>: the text cut after each newline.\<close>

fun readlines :: "string \<Rightarrow> string list" where
  "readlines [] = []"
| "readlines (c # cs) =
     (if c = CHR 0x0A then [c] # readlines cs
      else (case readlines cs of [] \<Rightarrow> [[c]] | l # ls \<Rightarrow> (c # l) # ls))"

definition ml_log :: "log_level \<Rightarrow> string \<Rightarrow> message_log \<Rightarrow> message_log" where
  "ml_log lvl msg ml = ml\<lparr>ml_wapp_log := ml_wapp_log ml @ [(lvl, msg, None)]\<rparr>"

definition get_log_name :: "env \<Rightarrow> string" where
  "get_log_name e =
     (case now e of (year, month, day) \<Rightarrow>
        str_nat year @ ''-'' @ str_nat month @ ''-'' @ str_nat day @ ''.txt'')"

definition get_logs :: "message_log \<Rightarrow> error + string list" where
  "get_logs ml =
     (case os_listdir (log_location ml) of
        Inl e \<Rightarrow> Inl e
      | Inr file_list \<Rightarrow> Inr [file_name \<leftarrow> file_list. re_search log_name_re file_name])"

text \<open>
  The loop of \<^verbatim>\<open>compact_logs\<close>. \<^verbatim>\<open>zipfile.ZipFile(path, "w")\<close> creates or truncates the
  archive before the text file is read into it.
\<close>

fun compact_loop ::
  "env \<Rightarrow> string list \<Rightarrow> directory option \<Rightarrow> (error \<times> directory option) + directory option"
where
  "compact_loop e [] d = Inr d"
| "compact_loop e (file_name # text_logs) d =
     (let zip_name = py_replace ''.txt'' ''.zip'' file_name in
      case fs_write d zip_name (Archive []) of
        Inl err \<Rightarrow> Inl (err, d)
      | Inr d1 \<Rightarrow>
          (case fs_read d1 file_name of
             Inl err \<Rightarrow> Inl (err, d1)
           | Inr content \<Rightarrow>
               (case fs_write d1 zip_name (Archive [(file_name, raw_bytes e content)]) of
                  Inl err \<Rightarrow> Inl (err, d1)
                | Inr d2 \<Rightarrow>
                    (case os_remove d2 file_name of
                       Inl err \<Rightarrow> Inl (err, d2)
                     | Inr d3 \<Rightarrow> compact_loop e text_logs d3))))"

definition compact_logs :: "env \<Rightarrow> message_log \<Rightarrow> (error \<times> message_log) + message_log" where
  "compact_logs e ml =
     (case get_logs ml of
        Inl err \<Rightarrow> Inl (err, ml)
      | Inr all_logs \<Rightarrow>
          (case compact_loop e [file_name \<leftarrow> all_logs. re_search txt_re file_name]
                  (log_location ml) of
             Inl (err, d) \<Rightarrow> Inl (err, ml\<lparr>log_location := d\<rparr>)
           | Inr d \<Rightarrow> Inr (ml\<lparr>log_location := d\<rparr>)))"

text \<open>\<^verbatim>\<open>zip_file.extractall(self.log_location)\<close>: every member becomes a text file.\<close>

definition extractall :: "(string \<times> string) list \<Rightarrow> directory \<Rightarrow> directory" where
  "extractall members files =
     foldl (\<lambda>fs (member, text). AList.update member (Plain text) fs) files members"

definition get_text_log ::
  "string \<Rightarrow> message_log \<Rightarrow> (error \<times> message_log) + (string \<times> message_log)"
where
  "get_text_log file_name ml =
     (if re_search zip_re file_name then
        (case fs_read (log_location ml) file_name of
           Inl err \<Rightarrow> Inl (err, ml)
         | Inr (Plain s) \<Rightarrow> Inl (BadZipFile, ml)
         | Inr (Archive members) \<Rightarrow>
             (let d1 = map_option (extractall members) (log_location ml) in
              case os_remove d1 file_name of
                Inl err \<Rightarrow> Inl (err, ml\<lparr>log_location := d1\<rparr>)
              | Inr d2 \<Rightarrow>
                  Inr (py_replace ''.zip'' ''.txt'' file_name, ml\<lparr>log_location := d2\<rparr>)))
      else Inr (file_name, ml))"

text \<open>
  \<^verbatim>\<open>all_logs.sort()\<close> orders the names as strings; \<^verbatim>\<open>all_logs[0]\<close> raises \<^verbatim>\<open>IndexError\<close>
  when there is no log file.
\<close>

definition get_oldest_log ::
  "message_log \<Rightarrow> (error \<times> message_log) + (string \<times> message_log)"
where
  "get_oldest_log ml =
     (case get_logs ml of
        Inl err \<Rightarrow> Inl (err, ml)
      | Inr all_logs \<Rightarrow>
          (case sort all_logs of
             [] \<Rightarrow> Inl (IndexError, ml)
           | file_name # others \<Rightarrow> get_text_log file_name ml))"

definition remove_first_lines ::
  "env \<Rightarrow> string \<Rightarrow> message_log \<Rightarrow> (error \<times> message_log) + message_log"
where
  "remove_first_lines e file_name ml =
     (case fs_read (log_location ml) file_name of
        Inl err \<Rightarrow> Inl (err, ml)
      | Inr content \<Rightarrow>
          (let lines = readlines (raw_bytes e content) in
           case (if lines_to_remove ml < int (length lines)
                 then fs_write (log_location ml) file_name
                        (Plain (concat (py_slice_from (lines_to_remove ml) lines)))
                 else os_remove (log_location ml) file_name) of
             Inl err \<Rightarrow> Inl (err, ml)
           | Inr d \<Rightarrow> Inr (ml_log DEBUG ''Removed old data'' (ml\<lparr>log_location := d\<rparr>))))"

text \<open>
  \<^verbatim>\<open>get_size\<close>: the sizes of the files in the directory (\<^verbatim>\<open>os.walk\<close> yields nothing for a
  missing directory) plus \<^verbatim>\<open>sys.getsizeof\<close> of the serialised message.
\<close>

definition get_size :: "env \<Rightarrow> message_log \<Rightarrow> string \<Rightarrow> nat" where
  "get_size e ml data =
     (case log_location ml of
        None \<Rightarrow> 0
      | Some files \<Rightarrow> sum_list (map (\<lambda>(file_name, c). length (raw_bytes e c)) files))
     + getsizeof e data"

text \<open>\<^verbatim>\<open>open(file_path, "a")\<close>, \<^verbatim>\<open>file.write(text)\<close>, \<^verbatim>\<open>file.close()\<close>.\<close>

definition fs_append :: "env \<Rightarrow> directory option \<Rightarrow> string \<Rightarrow> string \<Rightarrow> error + directory option" where
  "fs_append e d file_name text =
     (case fs_read d file_name of
        Inl err \<Rightarrow> fs_write d file_name (Plain text)
      | Inr content \<Rightarrow> fs_write d file_name (Plain (raw_bytes e content @ text)))"

text \<open>
  The handler \<^verbatim>\<open>except FileNotFoundError\<close> of \<^verbatim>\<open>add_message\<close>; any other exception leaves
  the method.
\<close>

definition add_message_except ::
  "error \<times> message_log \<Rightarrow> (error \<times> message_log) + message_log"
where
  "add_message_except r =
     (case r of (err, ml) \<Rightarrow>
        if err = FileNotFoundError
        then Inr (ml_log ERROR ''No log file could be created in: {}'' ml)
        else Inl (err, ml))"

text \<open>
  \<^verbatim>\<open>add_message\<close> calls itself after trimming. The first argument counts the nested calls
  the interpreter still allows; at 0 Python raises \<^verbatim>\<open>RecursionError\<close>.
\<close>

fun add_message ::
  "nat \<Rightarrow> env \<Rightarrow> json \<Rightarrow> message_log \<Rightarrow> (error \<times> message_log) + message_log"
where
  "add_message 0 e data ml = Inl (RecursionError, ml)"
| "add_message (Suc depth) e data ml =
     (if log_offline ml then
        (let string_data = json_dumps e data in
         if int (get_size e ml string_data) \<le> log_data_limit ml then
           (let file_name = get_log_name e in
            case (if \<not> os_path_isfile (log_location ml) file_name
                  then compact_logs e ml else Inr ml) of
              Inl r \<Rightarrow> add_message_except r
            | Inr ml1 \<Rightarrow>
                (case fs_append e (log_location ml1) file_name (string_data @ '' '' @ [CHR 0x0A]) of
                   Inl err \<Rightarrow> add_message_except (err, ml1)
                 | Inr d \<Rightarrow>
                     Inr (ml_log DEBUG (''Raw log Json: '' @ string_data)
                            (ml1\<lparr>log_location := d\<rparr>))))
         else
           (let ml0 = ml_log DEBUG ''Log limit exeeded.'' ml in
            if limit_action ml0 = REMOVE_OLD then
              (case get_oldest_log ml0 of
                 Inl r \<Rightarrow> add_message_except r
               | Inr (file_name, ml1) \<Rightarrow>
                   (case remove_first_lines e file_name ml1 of
                      Inl r \<Rightarrow> add_message_except r
                    | Inr ml2 \<Rightarrow> add_message depth e data ml2))
            else if limit_action ml0 = REMOVE_RECENT then
              Inr (ml_log DEBUG ''Not adding data'' ml0)
            else Inr ml0))
      else Inr (ml_log ERROR ''Sending while not connected'' ml))"

section \<open>The data model read by the connection\<close>

text \<open>
  \<^verbatim>\<open>State\<close>, \<^verbatim>\<open>Device\<close> and \<^verbatim>\<open>MessageData\<close> are classes of the repository that the
  modelled methods use through a few attributes only; the records hold those
  attributes. A report state's \<^verbatim>\<open>data\<close> is \<^verbatim>\<open>None\<close> or a number (the scheduler applies
  \<^verbatim>\<open>int()\<close> to it; the samples of a number value are taken as integers), and a
  timestamp is a number of seconds.
\<close>

record State =
  st_data :: "int option"
  st_timestamp :: int

text \<open>
  The attributes \<^verbatim>\<open>Value.__init__\<close> assigns and the scheduler reads. \<open>delta\<close> holds
  \<^verbatim>\<open>int(self.delta)\<close> and \<open>difference\<close> holds \<^verbatim>\<open>int(self.difference)\<close>, the float that
  \<^verbatim>\<open>fabs\<close> returned being a whole number. There is no attribute \<^verbatim>\<open>timer\<close>: \<^verbatim>\<open>__init__\<close> assigns none and
  no method of the class does.
\<close>

record Value =
  v_uuid :: string
  data_type :: string
  period :: "int option"
  delta :: "int option"
  report_state :: "State option"
  last_update_of_report :: int
  difference :: int
  delta_report :: int

record Device =
  dev_values :: "Value list"

record Network =
  net_uuid :: string
  net_name :: string
  devices :: "Device list"

datatype msg_kind =
    SEND_SUCCESS
  | SEND_REPORT
  | SEND_FAILED
  | SEND_RECONNECT
  | SEND_CONTROL
  | SEND_TRACE
  | SEND_DELETE

record MessageData =
  msg_id :: msg_kind
  rpc_id :: json
  msg_text :: "string option"

text \<open>
  What an attribute lookup on a \<^verbatim>\<open>Value\<close> can yield in the modelled code: \<^verbatim>\<open>None\<close>, the
  data of the report state, or a \<^verbatim>\<open>threading.Timer\<close> (alive or not).
\<close>

datatype pyobj = PyNone | PyInt int | PyTimer bool

definition get_report_state :: "Value \<Rightarrow> State option" where
  "get_report_state v = report_state v"

definition get_data :: "Value \<Rightarrow> pyobj" where
  "get_data v =
     (case get_report_state v of
        None \<Rightarrow> PyNone
      | Some state \<Rightarrow> (case st_data state of None \<Rightarrow> PyNone | Some n \<Rightarrow> PyInt n))"

text \<open>
  \<^verbatim>\<open>Value.__getattr__\<close>, which Python calls for an attribute that the normal lookup does
  not find. For any name but \<^verbatim>\<open>last_controlled\<close> the method falls off its end: the
  result is \<^verbatim>\<open>None\<close>, not an \<^verbatim>\<open>AttributeError\<close>.
\<close>

definition Value_getattr :: "Value \<Rightarrow> string \<Rightarrow> pyobj" where
  "Value_getattr v attr = (if attr \<in> set [''last_controlled''] then get_data v else PyNone)"

definition is_number_type :: "Value \<Rightarrow> bool" where
  "is_number_type v = (if data_type v = ''number'' then True else False)"

section \<open>The connection: \<^verbatim>\<open>ClientSocket\<close>\<close>

text \<open>
  The attributes of \<^verbatim>\<open>ClientSocket\<close> that the modelled methods touch.
  \<open>packet_awaiting_confirm\<close> is a dict from message id to message. \<open>my_socket\<close> and
  \<open>my_raw_socket\<close> hold a socket (by its descriptor) or \<^verbatim>\<open>None\<close>; \<open>closed_sockets\<close> lists
  the descriptors that have been closed and \<open>wire\<close> the frames written with
  \<^verbatim>\<open>my_socket.send\<close>, each the list that was serialised. \<open>network\<close> is
  \<^verbatim>\<open>data_manager.network\<close>. Locks are not modelled: the methods run one at a time.
\<close>

record ClientSocket =
  connected :: bool
  sending_queue :: "MessageData list"
  packet_awaiting_confirm :: "(py_key \<times> json) list"
  bulk_send_list :: "json list"
  my_socket :: "nat option"
  my_raw_socket :: "nat option"
  closed_sockets :: "nat list"
  wire :: "json list list"
  event_storage :: message_log
  network :: Network
  wapp_log :: "log_record list"

definition MAX_BULK_SIZE :: nat where
  "MAX_BULK_SIZE = 10"

definition log_msg :: "log_level \<Rightarrow> string \<Rightarrow> json option \<Rightarrow> ClientSocket \<Rightarrow> ClientSocket" where
  "log_msg lvl msg obj s = s\<lparr>wapp_log := wapp_log s @ [(lvl, msg, obj)]\<rparr>"

definition add_id_to_confirm_list :: "json \<Rightarrow> ClientSocket \<Rightarrow> error + ClientSocket" where
  "add_id_to_confirm_list data s =
     (case py_get data ''id'' of
        Inl e \<Rightarrow> Inl e
      | Inr i \<Rightarrow>
          (case py_hash_key i of
             Inl e \<Rightarrow> Inl e
           | Inr k \<Rightarrow>
               Inr (s\<lparr>packet_awaiting_confirm :=
                        AList.update k data (packet_awaiting_confirm s)\<rparr>)))"

text \<open>
  The argument \<^verbatim>\<open>_id\<close> is whatever the inbound frame holds under \<^verbatim>\<open>id\<close>. The test
  \<^verbatim>\<open>_id in self.packet_awaiting_confirm\<close> hashes it and raises \<^verbatim>\<open>TypeError\<close> when it is a list
  or a dict; the exception leaves the method between \<^verbatim>\<open>acquire\<close> and \<^verbatim>\<open>release\<close>.
\<close>

definition remove_id_from_confirm_list :: "json \<Rightarrow> ClientSocket \<Rightarrow> error + ClientSocket" where
  "remove_id_from_confirm_list id0 s =
     (case py_hash_key id0 of
        Inl e \<Rightarrow> Inl e
      | Inr k \<Rightarrow>
          if k \<in> fst ` set (packet_awaiting_confirm s) then
            (case py_del k (packet_awaiting_confirm s) of
               Inl e \<Rightarrow> Inl e
             | Inr d \<Rightarrow> Inr (s\<lparr>packet_awaiting_confirm := d\<rparr>))
          else Inr s)"

text \<open>
  How a method ends: it returns, it raises \<^verbatim>\<open>OSError\<close> (which \<^verbatim>\<open>create_bulk\<close> catches, so
  the state reached is kept), or it raises an exception that no handler on the modelled
  paths catches.
\<close>

datatype 'a outcome = Return 'a | Raise_OSError 'a | Raise error

text \<open>
  The second loop of \<^verbatim>\<open>send_data\<close>:
  \<^verbatim>\<open>
    for data_element in data:
        if data_element.get("method", "") in ["PUT", "POST", "DELETE"]:
            self.add_id_to_confirm_list(data_element)
  \<close>
\<close>

fun register_loop :: "json list \<Rightarrow> ClientSocket \<Rightarrow> error + ClientSocket" where
  "register_loop [] s = Inr s"
| "register_loop (data_element # rest) s =
     (case py_get_default data_element ''method'' (JStr []) of
        Inl e \<Rightarrow> Inl e
      | Inr m \<Rightarrow>
          if m \<in> set [JStr ''PUT'', JStr ''POST'', JStr ''DELETE'']
          then (case add_id_to_confirm_list data_element s of
                  Inl e \<Rightarrow> Inl e
                | Inr s' \<Rightarrow> register_loop rest s')
          else register_loop rest s)"

text \<open>
  \<^verbatim>\<open>send_data(data)\<close>. Its first loop has the shape of the list loop of
  \<^verbatim>\<open>get_object_without_none_values\<close> and is \<open>strip_list_loop\<close>. The list is changed in
  place, and the caller passes \<^verbatim>\<open>self.bulk_send_list\<close> itself: the result carries the list
  as the method leaves it.
\<close>

definition send_data :: "env \<Rightarrow> json list \<Rightarrow> ClientSocket \<Rightarrow> (json list \<times> ClientSocket) outcome" where
  "send_data e data s =
     (case strip_list_loop [] data of
        Inl err \<Rightarrow> Raise err
      | Inr data' \<Rightarrow>
          if connected s then
            (case register_loop data' s of
               Inl err \<Rightarrow> Raise err
             | Inr s1 \<Rightarrow>
                 if length data' > 0 then
                   (let s2 = log_msg DEBUG ''Raw Send Json: {}'' (Some (JArr data')) s1 in
                    case my_socket s2 of
                      None \<Rightarrow> Raise AttributeError
                    | Some sock \<Rightarrow>
                        if socket_send_ok e
                        then Return (data', s2\<lparr>wire := wire s2 @ [data']\<rparr>)
                        else Raise_OSError (data', s2))
                 else Return (data', s1))
          else
            (case add_message (recursion_limit e) e (JArr data') (event_storage s) of
               Inl (err, ml) \<Rightarrow> Raise err
             | Inr ml \<Rightarrow> Return (data', s\<lparr>event_storage := ml\<rparr>)))"

text \<open>The condition under which \<^verbatim>\<open>create_bulk\<close> calls \<^verbatim>\<open>send_data\<close>.\<close>

definition flush_condition :: "ClientSocket \<Rightarrow> bool" where
  "flush_condition s =
     ((length (sending_queue s) = 0 \<and> length (packet_awaiting_confirm s) = 0)
      \<or> length (bulk_send_list s) \<ge> MAX_BULK_SIZE)"

definition create_bulk :: "env \<Rightarrow> json \<Rightarrow> ClientSocket \<Rightarrow> error + ClientSocket" where
  "create_bulk e data s =
     (let s1 = (if data \<noteq> JNull then s\<lparr>bulk_send_list := bulk_send_list s @ [data]\<rparr> else s) in
      if flush_condition s1 then
        (case send_data e (bulk_send_list s1) s1 of
           Return (data', s2) \<Rightarrow> Inr (s2\<lparr>bulk_send_list := []\<rparr>)
         | Raise_OSError (data', s2) \<Rightarrow>
             Inr (log_msg ERROR ''Error sending message: {}'' None
                    (s2\<lparr>bulk_send_list := data', connected := False\<rparr>))
         | Raise err \<Rightarrow> Inl err)
      else Inr s1)"

text \<open>A run of \<^verbatim>\<open>create_bulk\<close> calls, each with its own surroundings.\<close>

fun create_bulk_all :: "(env \<times> json) list \<Rightarrow> ClientSocket \<Rightarrow> error + ClientSocket" where
  "create_bulk_all [] s = Inr s"
| "create_bulk_all ((e, data) # calls) s =
     (case create_bulk e data s of
        Inl err \<Rightarrow> Inl err
      | Inr s' \<Rightarrow> create_bulk_all calls s')"

subsection \<open>\<^verbatim>\<open>close\<close>\<close>

text \<open>\<^verbatim>\<open>obj.is_alive()\<close> and \<^verbatim>\<open>obj.cancel()\<close>: only a timer has these methods.\<close>

fun py_is_alive :: "pyobj \<Rightarrow> error + bool" where
  "py_is_alive (PyTimer alive) = Inr alive"
| "py_is_alive obj = Inl AttributeError"

fun py_cancel :: "pyobj \<Rightarrow> error + unit" where
  "py_cancel (PyTimer alive) = Inr ()"
| "py_cancel obj = Inl AttributeError"

text \<open>
  The loops of \<^verbatim>\<open>close\<close> over the values of a device and over the devices.
  \<^verbatim>\<open>value.timer\<close> is an attribute that a \<^verbatim>\<open>Value\<close> does not have, so the lookup is
  answered by \<^verbatim>\<open>__getattr__\<close>.
\<close>

fun close_values :: "Value list \<Rightarrow> ClientSocket \<Rightarrow> error + ClientSocket" where
  "close_values [] s = Inr s"
| "close_values (v # vs) s =
     (case py_is_alive (Value_getattr v ''timer'') of
        Inl e \<Rightarrow> Inl e
      | Inr alive \<Rightarrow>
          (let s1 = (if alive
                     then log_msg DEBUG
                            (''Value: '' @ v_uuid v @ '' is no longer periodically sending updates.'')
                            None s
                     else s) in
           case py_cancel (Value_getattr v ''timer'') of
             Inl e \<Rightarrow> Inl e
           | Inr u \<Rightarrow> close_values vs s1))"

fun close_devices :: "Device list \<Rightarrow> ClientSocket \<Rightarrow> error + ClientSocket" where
  "close_devices [] s = Inr s"
| "close_devices (device # ds) s =
     (case close_values (dev_values device) s of
        Inl e \<Rightarrow> Inl e
      | Inr s' \<Rightarrow> close_devices ds s')"

definition close :: "ClientSocket \<Rightarrow> error + ClientSocket" where
  "close s =
     (case close_devices (devices (network s)) (log_msg INFO ''Closing connection...'' None s) of
        Inl e \<Rightarrow> Inl e
      | Inr s1 \<Rightarrow>
          (let s2 = s1\<lparr>connected := False\<rparr>;
               s3 = (case my_socket s2 of
                       None \<Rightarrow> s2
                     | Some sock \<Rightarrow>
                         s2\<lparr>closed_sockets := closed_sockets s2 @ [sock], my_socket := None\<rparr>);
               s4 = (case my_raw_socket s3 of
                       None \<Rightarrow> s3
                     | Some sock \<Rightarrow>
                         s3\<lparr>closed_sockets := closed_sockets s3 @ [sock], my_raw_socket := None\<rparr>)
           in Inr s4))"

subsection \<open>Inbound requests\<close>

text \<open>
  \<^verbatim>\<open>send_error\<close> and \<^verbatim>\<open>send_success_reply\<close> put a \<^verbatim>\<open>MessageData\<close> on the sending queue;
  the sending thread turns it into the reply that goes to the peer.
\<close>

definition send_error :: "string \<Rightarrow> json \<Rightarrow> ClientSocket \<Rightarrow> ClientSocket" where
  "send_error error_str return_id s =
     s\<lparr>sending_queue := sending_queue s @
          [\<lparr>msg_id = SEND_FAILED, rpc_id = return_id, msg_text = Some error_str\<rparr>]\<rparr>"

definition send_success_reply :: "json \<Rightarrow> ClientSocket \<Rightarrow> ClientSocket" where
  "send_success_reply return_id s =
     s\<lparr>sending_queue := sending_queue s @
          [\<lparr>msg_id = SEND_SUCCESS, rpc_id = return_id, msg_text = None\<rparr>]\<rparr>"

text \<open>A chain \<^verbatim>\<open>obj.get(k1).get(k2)...\<close>.\<close>

fun py_get_path :: "json \<Rightarrow> string list \<Rightarrow> error + json" where
  "py_get_path obj [] = Inr obj"
| "py_get_path obj (key # keys) =
     (case py_get obj key of Inl e \<Rightarrow> Inl e | Inr v \<Rightarrow> py_get_path v keys)"

text \<open>\<^verbatim>\<open>"literal" + x\<close>: \<^verbatim>\<open>TypeError\<close> unless \<open>x\<close> is a \<^verbatim>\<open>str\<close>.\<close>

fun py_add_str :: "string \<Rightarrow> json \<Rightarrow> error + string" where
  "py_add_str s (JStr t) = Inr (s @ t)"
| "py_add_str s x = Inl TypeError"

text \<open>
  The second \<^verbatim>\<open>try\<close> block, the same in the three handlers:
  \<^verbatim>\<open>
    try:
        trace_id = data.get('params').get('meta').get('trace')
        if trace_id:
            self.wapp_log.debug("Found trace id: " + trace_id)
    except AttributeError:
        trace_id = None
  \<close>
\<close>

definition read_trace :: "json \<Rightarrow> ClientSocket \<Rightarrow> error + (json \<times> ClientSocket)" where
  "read_trace data s =
     (case py_get_path data [''params'', ''meta'', ''trace''] of
        Inl e \<Rightarrow> if e = AttributeError then Inr (JNull, s) else Inl e
      | Inr trace_id \<Rightarrow>
          if py_truthy trace_id then
            (case py_add_str ''Found trace id: '' trace_id of
               Inl e \<Rightarrow> if e = AttributeError then Inr (JNull, s) else Inl e
             | Inr msg \<Rightarrow> Inr (trace_id, log_msg DEBUG msg None s))
          else Inr (trace_id, s))"

text \<open>
  \<^verbatim>\<open>self.data_manager.get_by_id\<close>. The class \<^verbatim>\<open>DataManager\<close> defines no \<^verbatim>\<open>get_by_id\<close>, so the
  lookup is answered by \<^verbatim>\<open>DataManager.__getattr__\<close>, which returns the devices for
  \<^verbatim>\<open>device_list\<close>, the network for \<^verbatim>\<open>network_cl\<close>, and falls off its end for any other
  name: the result is \<^verbatim>\<open>None\<close>. Calling \<^verbatim>\<open>None\<close>, a list or a network raises \<^verbatim>\<open>TypeError\<close>.
\<close>

datatype dm_attr = DmNone | DmDeviceList "Device list" | DmNetwork Network

definition DataManager_getattr :: "Network \<Rightarrow> string \<Rightarrow> dm_attr" where
  "DataManager_getattr net attr =
     (if attr \<in> set [''device_list''] then DmDeviceList (devices net)
      else if attr \<in> set [''network_cl''] then DmNetwork net
      else DmNone)"

fun py_call :: "dm_attr \<Rightarrow> json \<Rightarrow> error + 'obj option" where
  "py_call DmNone arg = Inl TypeError"
| "py_call (DmDeviceList ds) arg = Inl TypeError"
| "py_call (DmNetwork net) arg = Inl TypeError"

text \<open>
  The three handlers. \<open>on_found\<close> is the rest of the handler, for an object that the lookup
  returns: it acts on that object (an object of the data model) and is a parameter here.
\<close>

definition incoming_control ::
  "('obj \<Rightarrow> json \<Rightarrow> json \<Rightarrow> json \<Rightarrow> json \<Rightarrow> ClientSocket \<Rightarrow> error + ClientSocket) \<Rightarrow>
   json \<Rightarrow> ClientSocket \<Rightarrow> error + ClientSocket"
where
  "incoming_control on_found data s =
     (case py_get data ''id'' of
        Inl e \<Rightarrow> Inl e
      | Inr return_id \<Rightarrow>
          (case (case py_get_path data [''params'', ''data'', ''meta'', ''id''] of
                   Inl e \<Rightarrow> Inl e
                 | Inr uuid \<Rightarrow>
                     (case py_get_path data [''params'', ''data'', ''meta'', ''type''] of
                        Inl e \<Rightarrow> Inl e
                      | Inr meta_type \<Rightarrow>
                          (case py_add_str ''Put request from id: '' uuid of
                             Inl e \<Rightarrow> Inl e
                           | Inr msg \<Rightarrow> Inr (uuid, meta_type, msg)))) of
             Inl e \<Rightarrow>
               if e = AttributeError
               then Inr (log_msg ERROR ''Error received incorrect format in put: {}'' (Some data) s)
               else Inl e
           | Inr (uuid, meta_type, msg) \<Rightarrow>
               (case read_trace data (log_msg DEBUG msg None s) of
                  Inl e \<Rightarrow> Inl e
                | Inr (trace_id, s1) \<Rightarrow>
                    (case py_call (DataManager_getattr (network s1) ''get_by_id'') uuid of
                       Inl e \<Rightarrow> Inl e
                     | Inr None \<Rightarrow> Inr (send_error ''Non-existing uuid provided'' return_id s1)
                     | Inr (Some obj) \<Rightarrow> on_found obj meta_type trace_id return_id data s1))))"

definition incoming_report_request ::
  "('obj \<Rightarrow> json \<Rightarrow> json \<Rightarrow> json \<Rightarrow> ClientSocket \<Rightarrow> error + ClientSocket) \<Rightarrow>
   json \<Rightarrow> ClientSocket \<Rightarrow> error + ClientSocket"
where
  "incoming_report_request on_found data s =
     (case py_get data ''id'' of
        Inl e \<Rightarrow> Inl e
      | Inr return_id \<Rightarrow>
          (case (case py_get_path data [''params'', ''data'', ''meta'', ''id''] of
                   Inl e \<Rightarrow> Inl e
                 | Inr uuid \<Rightarrow>
                     (case py_add_str ''Get request from id: '' uuid of
                        Inl e \<Rightarrow> Inl e
                      | Inr msg \<Rightarrow> Inr (uuid, msg))) of
             Inl e \<Rightarrow>
               if e = AttributeError
               then Inr (log_msg ERROR ''Error received incorrect format in get: {}'' (Some data) s)
               else Inl e
           | Inr (uuid, msg) \<Rightarrow>
               (case read_trace data (log_msg DEBUG msg None s) of
                  Inl e \<Rightarrow> Inl e
                | Inr (trace_id, s1) \<Rightarrow>
                    (case py_call (DataManager_getattr (network s1) ''get_by_id'') uuid of
                       Inl e \<Rightarrow> Inl e
                     | Inr None \<Rightarrow> Inr (send_error ''Non-existing uuid provided'' return_id s1)
                     | Inr (Some obj) \<Rightarrow> on_found obj trace_id return_id data s1))))"

definition incoming_delete_request ::
  "('obj \<Rightarrow> json \<Rightarrow> json \<Rightarrow> json \<Rightarrow> ClientSocket \<Rightarrow> error + ClientSocket) \<Rightarrow>
   json \<Rightarrow> ClientSocket \<Rightarrow> error + ClientSocket"
where
  "incoming_delete_request on_found data s =
     (case py_get data ''id'' of
        Inl e \<Rightarrow> Inl e
      | Inr return_id \<Rightarrow>
          (case (case py_get_path data [''params'', ''data'', ''meta'', ''id''] of
                   Inl e \<Rightarrow> Inl e
                 | Inr uuid \<Rightarrow>
                     (case py_add_str ''Delete request from id: '' uuid of
                        Inl e \<Rightarrow> Inl e
                      | Inr msg \<Rightarrow> Inr (uuid, msg))) of
             Inl e \<Rightarrow>
               if e = AttributeError
               then Inr (log_msg ERROR ''Error received incorrect format in delete: {}'' (Some data) s)
               else Inl e
           | Inr (uuid, msg) \<Rightarrow>
               (case read_trace data (log_msg DEBUG msg None s) of
                  Inl e \<Rightarrow> Inl e
                | Inr (trace_id, s1) \<Rightarrow>
                    (case py_call (DataManager_getattr (network s1) ''get_by_id'') uuid of
                       Inl e \<Rightarrow> Inl e
                     | Inr None \<Rightarrow> Inr (send_error ''Non-existing uuid provided'' return_id s1)
                     | Inr (Some obj) \<Rightarrow> on_found obj trace_id return_id data s1))))"

section \<open>The report scheduler: \<^verbatim>\<open>Value.__send_report_thread\<close>\<close>

text \<open>
  The thread of a value: the value itself (\<^verbatim>\<open>self\<close>, whose \<open>report_state\<close> is the object
  the local variable \<^verbatim>\<open>state\<close> names), the local variable \<^verbatim>\<open>value\<close>, and the calls
  \<^verbatim>\<open>self.parent.parent.conn.send_state(state)\<close> made so far, each with the state as it was
  passed.
\<close>

record report_thread =
  self_value :: Value
  local_value :: "int option"
  send_state_calls :: "State list"

text \<open>
  The statements that send a report, the same in the delta and in the period rule:
  \<^verbatim>\<open>
    state.timestamp = self.get_now()
    self.last_update_of_report = state.timestamp
    self.parent.parent.conn.send_state(state)
  \<close>
\<close>

definition send_report_now :: "int \<Rightarrow> State \<Rightarrow> report_thread \<Rightarrow> report_thread" where
  "send_report_now t state th =
     (let state' = state\<lparr>st_timestamp := t\<rparr> in
      th\<lparr>self_value := (self_value th)\<lparr>report_state := Some state', last_update_of_report := t\<rparr>,
         send_state_calls := send_state_calls th @ [state']\<rparr>)"

text \<open>
  \<^verbatim>\<open>__send_report_delta(state)\<close>, called at time \<open>t\<close>. \<^verbatim>\<open>int(self.delta)\<close> raises
  \<^verbatim>\<open>TypeError\<close> on \<^verbatim>\<open>None\<close>, which the handler for \<^verbatim>\<open>AttributeError\<close> does not catch.
\<close>

definition send_report_delta :: "int \<Rightarrow> State \<Rightarrow> report_thread \<Rightarrow> error + report_thread" where
  "send_report_delta t state th =
     (case delta (self_value th) of
        None \<Rightarrow> Inl TypeError
      | Some d \<Rightarrow>
          (let result = (difference (self_value th) \<ge> d) in
           if result \<and> delta_report (self_value th) = 1 then
             (let th1 = send_report_now t state th in
              Inr (th1\<lparr>self_value := (self_value th1)\<lparr>delta_report := 0\<rparr>\<rparr>))
           else Inr th))"

text \<open>
  One pass through the body of \<^verbatim>\<open>while True\<close>. \<open>sample\<close> is what \<^verbatim>\<open>state.data\<close> holds when
  the pass begins (other threads write it) and \<open>t\<close> is the time \<^verbatim>\<open>get_now\<close> returns
  during the pass.
\<close>

definition report_iteration :: "int option \<times> int \<Rightarrow> report_thread \<Rightarrow> error + report_thread" where
  "report_iteration tick th0 =
     (case tick of (sample, t) \<Rightarrow>
      (case report_state (self_value th0) of
         None \<Rightarrow> Inl AttributeError
       | Some state0 \<Rightarrow>
          (let state = state0\<lparr>st_data := sample\<rparr>;
               th = th0\<lparr>self_value := (self_value th0)\<lparr>report_state := Some state\<rparr>\<rparr> in
           case (case st_data state of
                   None \<Rightarrow> Inr th
                 | Some value_check \<Rightarrow>
                     if is_number_type (self_value th) then
                       (if local_value th \<noteq> Some value_check then
                          (case local_value th of
                             None \<Rightarrow> Inl TypeError
                           | Some val \<Rightarrow>
                               (case py_fabs (val - value_check) of
                                  Inl e \<Rightarrow> Inl e
                                | Inr f \<Rightarrow>
                                    Inr (th\<lparr>self_value := (self_value th)
                                               \<lparr>difference := f, delta_report := 1\<rparr>,
                                            local_value := Some value_check\<rparr>)))
                        else Inr th)
                     else Inr th) of
             Inl e \<Rightarrow> Inl e
           | Inr th1 \<Rightarrow>
               (case (if delta (self_value th1) \<noteq> None
                      then send_report_delta t state th1 else Inr th1) of
                  Inl e \<Rightarrow> Inl e
                | Inr th2 \<Rightarrow>
                    (case period (self_value th2) of
                       None \<Rightarrow> Inr th2
                     | Some p \<Rightarrow>
                         if last_update_of_report (self_value th2) + p \<le> t
                         then (case report_state (self_value th2) of
                                 None \<Rightarrow> Inl AttributeError
                               | Some state2 \<Rightarrow> Inr (send_report_now t state2 th2))
                         else Inr th2)))))"

text \<open>
  The loop never ends; \<open>report_loop\<close> runs its first passes, one for each element of the
  list.
\<close>

fun report_loop :: "(int option \<times> int) list \<Rightarrow> report_thread \<Rightarrow> error + report_thread" where
  "report_loop [] th = Inr th"
| "report_loop (tick # ticks) th =
     (case report_iteration tick th of
        Inl e \<Rightarrow> Inl e
      | Inr th' \<Rightarrow> report_loop ticks th')"

definition send_report_thread :: "(int option \<times> int) list \<Rightarrow> Value \<Rightarrow> error + report_thread" where
  "send_report_thread ticks v =
     (case get_report_state v of
        None \<Rightarrow> Inr \<lparr>self_value = v, local_value = None, send_state_calls = []\<rparr>
      | Some state \<Rightarrow>
          report_loop ticks \<lparr>self_value = v, local_value = st_data state, send_state_calls = []\<rparr>)"

section \<open>Concrete inputs\<close>

text \<open>
  The states and messages at which the theorems below are evaluated. \<open>json_dumps_ascii\<close> is
  \<^verbatim>\<open>json.dumps\<close> with its default separators, for values whose strings need no escape.
\<close>

fun py_join :: "string \<Rightarrow> string list \<Rightarrow> string" where
  "py_join sep [] = []"
| "py_join sep [x] = x"
| "py_join sep (x # y # xs) = x @ sep @ py_join sep (y # xs)"

fun json_dumps_ascii :: "json \<Rightarrow> string" where
  "json_dumps_ascii JNull = ''null''"
| "json_dumps_ascii (JBool b) = (if b then ''true'' else ''false'')"
| "json_dumps_ascii (JInt i) = (if i < 0 then ''-'' @ str_nat (nat (- i)) else str_nat (nat i))"
| "json_dumps_ascii (JStr s) = [CHR 0x22] @ s @ [CHR 0x22]"
| "json_dumps_ascii (JArr xs) = ''['' @ py_join '', '' (map json_dumps_ascii xs) @ '']''"
| "json_dumps_ascii (JObj items) =
     ''{'' @ py_join '', ''
              (map (\<lambda>p. [CHR 0x22] @ fst p @ [CHR 0x22] @ '': '' @ json_dumps_ascii (snd p)) items)
     @ ''}''"

text \<open>
  A stand-in for the bytes of an archive that \<^verbatim>\<open>zipfile\<close> writes without compression (its
  default): for each member a local header of 30 bytes, the name and the data, then for
  each member a central header of 46 bytes and the name, then an end record of 22 bytes.
  Only the length of the result is used.
\<close>

definition zip_stored :: "(string \<times> string) list \<Rightarrow> string" where
  "zip_stored members =
     concat (map (\<lambda>m. replicate 30 CHR ''P'' @ fst m @ snd m) members)
     @ concat (map (\<lambda>m. replicate 46 CHR ''K'' @ fst m) members)
     @ replicate 22 CHR ''E''"

text \<open>
  Surroundings with CPython's \<^verbatim>\<open>sys.getsizeof\<close> of an ASCII \<^verbatim>\<open>str\<close> (49 bytes and one
  byte for each character), the date 1 October 2020, and a socket write that succeeds
  (\<open>env_ok\<close>) or raises \<^verbatim>\<open>OSError\<close> (\<open>env_fail\<close>).
\<close>

definition env_ok :: env where
  "env_ok = \<lparr>json_dumps = json_dumps_ascii, getsizeof = (\<lambda>s. 49 + length s),
     zip_bytes = zip_stored,
     recursion_limit = 1000, now = (2020, 10, 1), socket_send_ok = True\<rparr>"

definition env_fail :: env where
  "env_fail = env_ok\<lparr>socket_send_ok := False\<rparr>"

definition log0 :: message_log where
  "log0 = \<lparr>log_offline = True, log_location = Some [], log_data_limit = 100,
     limit_action = REMOVE_OLD, lines_to_remove = 1, ml_wapp_log = []\<rparr>"

text \<open>A connected socket with nothing queued, nothing pending and a network without devices.\<close>

definition sock0 :: ClientSocket where
  "sock0 = \<lparr>connected = True, sending_queue = [], packet_awaiting_confirm = [],
     bulk_send_list = [], my_socket = Some 3, my_raw_socket = Some 4, closed_sockets = [],
     wire = [], event_storage = log0,
     network = \<lparr>net_uuid = ''n1'', net_name = ''net'', devices = []\<rparr>, wapp_log = []\<rparr>"

definition pending2 :: "(py_key \<times> json) list" where
  "pending2 = [(KInt 1, JObj [(''id'', JInt 1), (''method'', JStr ''PUT'')]),
               (KStr ''a'', JObj [(''id'', JStr ''a''), (''method'', JStr ''DELETE'')])]"

section \<open>Notions used to state the properties\<close>

text \<open>
  An entry of a batch is mutating when its \<^verbatim>\<open>method\<close> is \<^verbatim>\<open>PUT\<close>, \<^verbatim>\<open>POST\<close> or \<^verbatim>\<open>DELETE\<close>;
  its key in the pending-ack map is its \<^verbatim>\<open>id\<close>.
\<close>

definition is_mutating :: "json \<Rightarrow> bool" where
  "is_mutating el =
     (py_get_default el ''method'' (JStr []) \<in>
        {Inr (JStr ''PUT''), Inr (JStr ''POST''), Inr (JStr ''DELETE'')})"

definition entry_key :: "json \<Rightarrow> error + py_key" where
  "entry_key el = (case py_get el ''id'' of Inl e \<Rightarrow> Inl e | Inr i \<Rightarrow> py_hash_key i)"

text \<open>The list \<^verbatim>\<open>create_bulk\<close> holds after its first statement.\<close>

definition appended :: "json \<Rightarrow> ClientSocket \<Rightarrow> ClientSocket" where
  "appended data s = (if data \<noteq> JNull then s\<lparr>bulk_send_list := bulk_send_list s @ [data]\<rparr> else s)"

text \<open>What an outcome of \<^verbatim>\<open>send_data\<close> shows: the list, the pending-ack map, the frames written.\<close>

definition returned :: "(json list \<times> ClientSocket) outcome \<Rightarrow>
    (json list \<times> (py_key \<times> json) list \<times> json list list) option" where
  "returned r =
     (case r of
        Return (d, s) \<Rightarrow> Some (d, packet_awaiting_confirm s, wire s)
      | Raise_OSError x \<Rightarrow> None
      | Raise err \<Rightarrow> None)"

definition raised_OSError :: "(json list \<times> ClientSocket) outcome \<Rightarrow>
    (json list \<times> (py_key \<times> json) list \<times> json list list) option" where
  "raised_OSError r =
     (case r of
        Return x \<Rightarrow> None
      | Raise_OSError (d, s) \<Rightarrow> Some (d, packet_awaiting_confirm s, wire s)
      | Raise err \<Rightarrow> None)"

text \<open>A \<^verbatim>\<open>PUT\<close> request with a \<^verbatim>\<open>None\<close> inside, what is left of it after stripping, and a \<^verbatim>\<open>GET\<close>.\<close>

definition msg_put :: json where
  "msg_put = JObj [(''id'', JInt 1), (''method'', JStr ''PUT''),
                   (''params'', JObj [(''data'', JNull)])]"

definition msg_put_stripped :: json where
  "msg_put_stripped = JObj [(''id'', JInt 1), (''method'', JStr ''PUT'')]"

definition msg_get :: json where
  "msg_get = JObj [(''id'', JInt 2), (''method'', JStr ''GET'')]"

text \<open>The socket with a reply waiting on the sending queue, and the socket disconnected.\<close>

text \<open>The busy socket with nine entries in the batch.\<close>

definition sock_busy_nine :: ClientSocket where
  "sock_busy_nine =
     sock0\<lparr>sending_queue := [\<lparr>msg_id = SEND_SUCCESS, rpc_id = JInt 9, msg_text = None\<rparr>],
           bulk_send_list := replicate 9 msg_get\<rparr>"

definition sock_busy :: ClientSocket where
  "sock_busy = sock0\<lparr>sending_queue := [\<lparr>msg_id = SEND_SUCCESS, rpc_id = JInt 9, msg_text = None\<rparr>]\<rparr>"

definition sock_offline :: ClientSocket where
  "sock_offline = sock0\<lparr>connected := False, event_storage := log0\<lparr>log_data_limit := 1000\<rparr>\<rparr>"

text \<open>
  The delta rule in words: going through the samples, a report is due at a sample that
  differs from the sample observed before it by at least the delta. \<open>delta_rule_reports d
  prev xs\<close> lists the samples of \<open>xs\<close> at which a report is due, \<open>prev\<close> being the sample
  observed before the first one.
\<close>

fun delta_rule_reports :: "int \<Rightarrow> int \<Rightarrow> int list \<Rightarrow> int list" where
  "delta_rule_reports d prev [] = []"
| "delta_rule_reports d prev (x # xs) =
     (if x \<noteq> prev \<and> \<bar>prev - x\<bar> \<ge> d then [x] else []) @ delta_rule_reports d x xs"

text \<open>
  A number value as \<^verbatim>\<open>__init__\<close> leaves it, with no period and delta 5, whose report state
  holds 10 when the thread starts; and the passes of the loop that observe the samples
  10, 12, 16, 16, 21 at the seconds 1 to 5.
\<close>

definition value_delta5 :: Value where
  "value_delta5 = \<lparr>v_uuid = ''v1'', data_type = ''number'', period = None, delta = Some 5,
     report_state = Some \<lparr>st_data = Some 10, st_timestamp = 0\<rparr>,
     last_update_of_report = 0, difference = 0, delta_report = 0\<rparr>"

definition value_delta_large :: Value where
  "value_delta_large = \<lparr>v_uuid = ''v2'', data_type = ''number'', period = None,
     delta = Some (2 ^ 53 + 1),
     report_state = Some \<lparr>st_data = Some 0, st_timestamp = 0\<rparr>,
     last_update_of_report = 0, difference = 0, delta_report = 0\<rparr>"

definition samples_10_21 :: "(int \<times> int) list" where
  "samples_10_21 = [(10, 1), (12, 2), (16, 3), (16, 4), (21, 5)]"

definition observed :: "(int \<times> int) list \<Rightarrow> (int option \<times> int) list" where
  "observed obs = map (\<lambda>(x, t). (Some x, t)) obs"

text \<open>
  Samples small enough for the float that \<^verbatim>\<open>fabs\<close> returns to be exact: the difference of
  two of them is below \<open>2 ^ 53\<close>. And what holds of the thread between two passes when only
  the delta rule is active: the settings are unchanged, the local variable holds the last
  sample, and a difference that has not been reported is below the delta.
\<close>

definition small_sample :: "int \<Rightarrow> bool" where
  "small_sample x \<longleftrightarrow> \<bar>x\<bar> < 2 ^ 52"

definition delta_inv :: "int \<Rightarrow> int \<Rightarrow> report_thread \<Rightarrow> bool" where
  "delta_inv d prev th \<longleftrightarrow>
     period (self_value th) = None \<and> delta (self_value th) = Some d
     \<and> data_type (self_value th) = ''number''
     \<and> report_state (self_value th) \<noteq> None
     \<and> local_value th = Some prev \<and> small_sample prev
     \<and> (delta_report (self_value th) = 1 \<longrightarrow> difference (self_value th) < d)"

text \<open>
  Inbound requests: handlers for a found object that do nothing; \<^verbatim>\<open>PUT\<close>, \<^verbatim>\<open>GET\<close> and
  \<^verbatim>\<open>DELETE\<close> frames without \<^verbatim>\<open>params.data.meta\<close>; a \<^verbatim>\<open>PUT\<close> frame whose \<^verbatim>\<open>meta\<close> has no
  \<^verbatim>\<open>id\<close>; and well-formed \<^verbatim>\<open>PUT\<close>, \<^verbatim>\<open>GET\<close> and \<^verbatim>\<open>DELETE\<close> frames for an id that the network
  does not hold.
\<close>

definition on_found_control ::
  "unit \<Rightarrow> json \<Rightarrow> json \<Rightarrow> json \<Rightarrow> json \<Rightarrow> ClientSocket \<Rightarrow> error + ClientSocket" where
  "on_found_control obj meta_type trace_id return_id data s = Inr s"

definition on_found_other ::
  "unit \<Rightarrow> json \<Rightarrow> json \<Rightarrow> json \<Rightarrow> ClientSocket \<Rightarrow> error + ClientSocket" where
  "on_found_other obj trace_id return_id data s = Inr s"

definition frame_put_malformed :: json where
  "frame_put_malformed = JObj [(''id'', JStr ''7''), (''method'', JStr ''PUT''), (''params'', JObj [])]"

definition frame_get_malformed :: json where
  "frame_get_malformed = JObj [(''id'', JStr ''8''), (''method'', JStr ''GET''), (''params'', JObj [])]"

definition frame_delete_malformed :: json where
  "frame_delete_malformed =
     JObj [(''id'', JStr ''9''), (''method'', JStr ''DELETE''), (''params'', JStr ''x'')]"

definition frame_put_no_id :: json where
  "frame_put_no_id =
     JObj [(''id'', JStr ''7''), (''method'', JStr ''PUT''),
           (''params'', JObj [(''data'', JObj [(''meta'', JObj [(''type'', JStr ''value'')])])])]"

definition frame_unknown :: "string \<Rightarrow> json" where
  "frame_unknown method =
     JObj [(''id'', JStr ''7''), (''method'', JStr method),
           (''params'', JObj [(''data'', JObj [(''meta'',
              JObj [(''id'', JStr ''no-such-uuid''), (''type'', JStr ''value'')])])])]"

text \<open>
  Enqueue operations of all-\<^verbatim>\<open>None\<close> messages: one on a batch that already holds one, and a
  run of ten.
\<close>

definition msg_null :: json where
  "msg_null = JObj [(''a'', JNull)]"

definition sock_one_null :: ClientSocket where
  "sock_one_null = sock0\<lparr>bulk_send_list := [msg_null]\<rparr>"

definition ten_null_calls :: "(env \<times> json) list" where
  "ten_null_calls = replicate 10 (env_ok, msg_null)"

text \<open>
  Stripping as the specification words it: in every entry, recursively, a key is removed
  when its value is \<^verbatim>\<open>None\<close> or is empty after stripping, and an entry of a list that is
  empty after stripping is dropped.
\<close>

fun spec_strip_items :: "(string \<times> json) list \<Rightarrow> (string \<times> json) list"
  and spec_strip_list :: "json list \<Rightarrow> json list"
  and spec_strip :: "json \<Rightarrow> json"
where
  "spec_strip_items [] = []"
| "spec_strip_items ((key, val) # items) =
     (if val = JNull \<or> spec_strip val = JObj [] \<or> spec_strip val = JArr []
      then spec_strip_items items
      else (key, spec_strip val) # spec_strip_items items)"
| "spec_strip_list [] = []"
| "spec_strip_list (x # xs) =
     (if spec_strip x = JObj [] then spec_strip_list xs else spec_strip x # spec_strip_list xs)"
| "spec_strip (JObj items) = JObj (spec_strip_items items)"
| "spec_strip (JArr xs) = JArr (spec_strip_list xs)"
| "spec_strip v = v"

text \<open>
  The lists on which the stripping loops of the code lose nothing: every element the
  loop reaches is a dict, and an element that follows one that strips to \<^verbatim>\<open>{}\<close> (the loop
  steps over it) is already stripped and not empty.
\<close>

fun strip_safe_items :: "(string \<times> json) list \<Rightarrow> bool"
  and strip_safe_list :: "json list \<Rightarrow> bool"
  and strip_safe :: "json \<Rightarrow> bool"
where
  "strip_safe_items [] = True"
| "strip_safe_items ((key, val) # items) = (strip_safe val \<and> strip_safe_items items)"
| "strip_safe_list [] = True"
| "strip_safe_list [JObj items] = strip_safe_items items"
| "strip_safe_list (JObj items # y # xs) =
     (strip_safe_items items \<and>
      (if spec_strip_items items = []
       then spec_strip y = y \<and> y \<noteq> JObj [] \<and> strip_safe_list xs
       else strip_safe_list (y # xs)))"
| "strip_safe_list (x # xs) = False"
| "strip_safe (JObj items) = strip_safe_items items"
| "strip_safe (JArr xs) = strip_safe_list xs"
| "strip_safe v = True"

text \<open>
  A batch of two entries that hold nothing but \<^verbatim>\<open>None\<close>, and a \<^verbatim>\<open>POST\<close> whose payload has a
  list of two such dicts.
\<close>

definition batch_two_null :: "json list" where
  "batch_two_null = [JObj [(''a'', JNull)], JObj [(''b'', JNull)]]"

definition msg_nested_null :: json where
  "msg_nested_null =
     JObj [(''id'', JInt 5), (''method'', JStr ''POST''),
           (''params'', JObj [(''data'', JObj [(''state'',
              JArr [JObj [(''data'', JNull)], JObj [(''timestamp'', JNull)]])])])]"

text \<open>The socket of a network with one device that has one value.\<close>

definition sock_one_value :: ClientSocket where
  "sock_one_value =
     sock0\<lparr>network := \<lparr>net_uuid = ''n1'', net_name = ''net'',
                         devices = [\<lparr>dev_values = [value_delta5]\<rparr>]\<rparr>\<rparr>"

text \<open>
  A log directory on 1 October 2020: the compacted log of 30 September (137 bytes) and the
  log of the day (13 bytes), one line each; the limit is 200 bytes.
\<close>

definition log_two_days :: message_log where
  "log_two_days = \<lparr>log_offline = True,
     log_location =
       Some [(''2020-9-30.zip'', Archive [(''2020-9-30.txt'', ''[{\"id\": 1}] '' @ [CHR 0x0A])]),
             (''2020-10-1.txt'', Plain (''[{\"id\": 2}] '' @ [CHR 0x0A]))],
     log_data_limit = 200, limit_action = REMOVE_OLD, lines_to_remove = 1, ml_wapp_log = []\<rparr>"

text \<open>A batch whose serialisation has 80 characters, and two whose serialisation has 31.\<close>

definition batch_80 :: json where
  "batch_80 = JArr [JObj [(''id'', JInt 1), (''data'', JStr (replicate 57 CHR ''x''))]]"

definition batch_31a :: json where
  "batch_31a = JArr [JObj [(''id'', JInt 1), (''data'', JStr ''aaaaaaaa'')]]"

definition batch_31b :: json where
  "batch_31b = JArr [JObj [(''id'', JInt 2), (''data'', JStr ''bbbbbbbb'')]]"

text \<open>A batch that is safe to strip although its first entry strips to nothing.\<close>

definition batch_null_then_clean :: "json list" where
  "batch_null_then_clean = [JObj [(''a'', JNull)], msg_get, msg_put]"

text \<open>The second of two calls of \<^verbatim>\<open>add_message\<close>, on the log the first one returns.\<close>

definition add_message_twice ::
  "env \<Rightarrow> json \<Rightarrow> json \<Rightarrow> message_log \<Rightarrow> (error \<times> message_log) + message_log" where
  "add_message_twice e m1 m2 ml =
     (case add_message (recursion_limit e) e m1 ml of
        Inl r \<Rightarrow> Inl r
      | Inr ml1 \<Rightarrow> add_message (recursion_limit e) e m2 ml1)"

section \<open>The pending-ack map\<close>

lemma filter_fst_neq_length:
  "distinct (map fst al) \<Longrightarrow> k \<in> fst ` set al \<Longrightarrow>
     length [p \<leftarrow> al. fst p \<noteq> k] + 1 = length al"
proof (induction al)
  case Nil
  then show ?case by simp
next
  case (Cons p al)
  show ?case
  proof (cases "fst p = k")
    case True
    with Cons.prems have "k \<notin> fst ` set al" by auto
    then have "[q \<leftarrow> al. fst q \<noteq> k] = al"
      by (induction al) auto
    with True show ?thesis by simp
  next
    case False
    with Cons show ?thesis by auto
  qed
qed

lemma delete_filter_fst: "AList.delete k al = [p \<leftarrow> al. fst p \<noteq> k]"
  by (induction al) auto

lemma py_hash_key_error: "py_hash_key id0 = Inl e \<Longrightarrow> e = TypeError"
  by (cases id0) auto

lemma remove_id_hashable:
  assumes "py_hash_key id0 = Inr k"
  shows "remove_id_from_confirm_list id0 s =
     Inr (s\<lparr>packet_awaiting_confirm := [p \<leftarrow> packet_awaiting_confirm s. fst p \<noteq> k]\<rparr>)"
proof (cases "k \<in> fst ` set (packet_awaiting_confirm s)")
  case True
  with assms show ?thesis
    by (simp add: remove_id_from_confirm_list_def py_del_def delete_filter_fst)
next
  case False
  then have "[p \<leftarrow> packet_awaiting_confirm s. fst p \<noteq> k] = packet_awaiting_confirm s"
    using AList.delete_id [of k "packet_awaiting_confirm s"] by (simp add: delete_filter_fst)
  with False assms show ?thesis
    by (simp add: remove_id_from_confirm_list_def)
qed

text \<open>
  Claim C10 fails for an id that cannot be hashed: for the id \<^verbatim>\<open>[1]\<close>, which an inbound frame
  can carry, the membership test raises \<^verbatim>\<open>TypeError\<close>.
\<close>

theorem remove_id_unhashable_counterexample:
  "remove_id_from_confirm_list (JArr [JInt 1]) (sock0\<lparr>packet_awaiting_confirm := pending2\<rparr>)
     = Inl TypeError"
  by code_simp

text \<open>
  Claim C10, amended. For every hashable id (\<^verbatim>\<open>None\<close>, a boolean, a number or a string, with
  key \<open>k\<close>) \<^verbatim>\<open>remove_id_from_confirm_list\<close> returns, the \<^verbatim>\<open>del\<close> being guarded by the membership
  test. The map afterwards is the map before without the entries of that id: unchanged
  when the id is absent, and with exactly one entry less when it is present (the keys of a
  dict are distinct); every other entry and every other attribute is as before. For an id
  that is a list or a dict the call raises \<^verbatim>\<open>TypeError\<close>.
\<close>

theorem remove_id_from_confirm_list_guarded:
  "(\<forall>k. py_hash_key id0 = Inr k \<longrightarrow>
      remove_id_from_confirm_list id0 s =
        Inr (s\<lparr>packet_awaiting_confirm := [p \<leftarrow> packet_awaiting_confirm s. fst p \<noteq> k]\<rparr>)
      \<and> (k \<notin> fst ` set (packet_awaiting_confirm s) \<longrightarrow>
            remove_id_from_confirm_list id0 s = Inr s)
      \<and> (\<forall>s'. remove_id_from_confirm_list id0 s = Inr s' \<longrightarrow>
            map_of (packet_awaiting_confirm s') = (map_of (packet_awaiting_confirm s))(k := None)
            \<and> (k \<in> fst ` set (packet_awaiting_confirm s)
                 \<and> distinct (map fst (packet_awaiting_confirm s))
                \<longrightarrow> length (packet_awaiting_confirm s') + 1
                     = length (packet_awaiting_confirm s))))
   \<and> (\<forall>e. py_hash_key id0 = Inl e \<longrightarrow> remove_id_from_confirm_list id0 s = Inl TypeError)"
proof (intro conjI allI impI)
  fix k assume h: "py_hash_key id0 = Inr k"
  let ?al = "packet_awaiting_confirm s"
  show res: "remove_id_from_confirm_list id0 s =
      Inr (s\<lparr>packet_awaiting_confirm := [p \<leftarrow> ?al. fst p \<noteq> k]\<rparr>)"
    by (rule remove_id_hashable [OF h])
  {
    assume "k \<notin> fst ` set ?al"
    with h show "remove_id_from_confirm_list id0 s = Inr s"
      by (simp add: remove_id_from_confirm_list_def)
  }
  {
    fix s' assume "remove_id_from_confirm_list id0 s = Inr s'"
    with res have s': "s' = s\<lparr>packet_awaiting_confirm := [p \<leftarrow> ?al. fst p \<noteq> k]\<rparr>"
      by simp
    have m: "map_of [p \<leftarrow> ?al. fst p \<noteq> k] = (map_of ?al)(k := None)"
      using AList.delete_conv' [of k ?al] by (simp add: delete_filter_fst)
    show "map_of (packet_awaiting_confirm s') = (map_of ?al)(k := None)"
      unfolding s' using m by simp
    {
      assume "k \<in> fst ` set ?al \<and> distinct (map fst ?al)"
      then show "length (packet_awaiting_confirm s') + 1 = length ?al"
        unfolding s' using filter_fst_neq_length [of ?al k] by simp
    }
  }
next
  fix e assume "py_hash_key id0 = Inl e"
  then show "remove_id_from_confirm_list id0 s = Inl TypeError"
    using py_hash_key_error [of id0 e] by (simp add: remove_id_from_confirm_list_def)
qed

lemma eval_pending2:
  "KInt 1 \<in> fst ` set pending2" "distinct (map fst pending2)" "KInt 7 \<notin> fst ` set pending2"
  by (simp_all add: pending2_def)

theorem remove_id_from_confirm_list_witness:
  "py_hash_key (JInt 1) = Inr (KInt 1)
   \<and> KInt 1 \<in> fst ` set pending2 \<and> distinct (map fst pending2)
   \<and> remove_id_from_confirm_list (JInt 1) (sock0\<lparr>packet_awaiting_confirm := pending2\<rparr>) =
       Inr (sock0\<lparr>packet_awaiting_confirm :=
                     [(KStr ''a'', JObj [(''id'', JStr ''a''), (''method'', JStr ''DELETE'')])]\<rparr>)
   \<and> py_hash_key (JInt 7) = Inr (KInt 7) \<and> KInt 7 \<notin> fst ` set pending2
   \<and> remove_id_from_confirm_list (JInt 7) (sock0\<lparr>packet_awaiting_confirm := pending2\<rparr>) =
       Inr (sock0\<lparr>packet_awaiting_confirm := pending2\<rparr>)
   \<and> py_hash_key (JArr [JInt 1]) = Inl TypeError
   \<and> remove_id_from_confirm_list (JArr [JInt 1]) (sock0\<lparr>packet_awaiting_confirm := pending2\<rparr>)
       = Inl TypeError"
  using remove_id_from_confirm_list_guarded [of "JInt 1" "sock0\<lparr>packet_awaiting_confirm := pending2\<rparr>"]
    remove_id_from_confirm_list_guarded [of "JInt 7" "sock0\<lparr>packet_awaiting_confirm := pending2\<rparr>"]
    remove_id_from_confirm_list_guarded [of "JArr [JInt 1]" "sock0\<lparr>packet_awaiting_confirm := pending2\<rparr>"]
    eval_pending2
  by (simp add: pending2_def)

section \<open>The outbound batcher\<close>

lemma log_msg_fields:
  "wire (log_msg lvl m obj s) = wire s"
  "my_socket (log_msg lvl m obj s) = my_socket s"
  "packet_awaiting_confirm (log_msg lvl m obj s) = packet_awaiting_confirm s"
  "bulk_send_list (log_msg lvl m obj s) = bulk_send_list s"
  "connected (log_msg lvl m obj s) = connected s"
  "event_storage (log_msg lvl m obj s) = event_storage s"
  "sending_queue (log_msg lvl m obj s) = sending_queue s"
  by (simp_all add: log_msg_def)

lemma add_id_frame:
  "add_id_to_confirm_list el s = Inr s1 \<Longrightarrow>
     \<exists>k. entry_key el = Inr k \<and>
       s1 = s\<lparr>packet_awaiting_confirm := AList.update k el (packet_awaiting_confirm s)\<rparr>"
  by (auto simp: add_id_to_confirm_list_def entry_key_def split: sum.splits)

lemma register_loop_step:
  "register_loop (el # rest) s = Inr s1 \<Longrightarrow>
     (is_mutating el \<and> (\<exists>k. entry_key el = Inr k \<and>
         register_loop rest (s\<lparr>packet_awaiting_confirm := AList.update k el (packet_awaiting_confirm s)\<rparr>) = Inr s1))
     \<or> (\<not> is_mutating el \<and> register_loop rest s = Inr s1)"
  by (auto simp: is_mutating_def dest!: add_id_frame split: sum.splits if_splits)

lemma register_loop_frame:
  "register_loop d s = Inr s1 \<Longrightarrow>
     s1 = s\<lparr>packet_awaiting_confirm := packet_awaiting_confirm s1\<rparr>"
proof (induction d arbitrary: s)
  case Nil
  then show ?case by simp
next
  case (Cons el rest)
  from register_loop_step [OF Cons.prems] show ?case
  proof (elim disjE conjE exE)
    fix k
    assume "register_loop rest (s\<lparr>packet_awaiting_confirm := AList.update k el (packet_awaiting_confirm s)\<rparr>) = Inr s1"
    from Cons.IH [OF this] show ?thesis
      by (cases s, cases s1) simp
  next
    assume "register_loop rest s = Inr s1"
    from Cons.IH [OF this] show ?thesis .
  qed
qed

lemma register_loop_fields:
  assumes "register_loop d s = Inr s1"
  shows "wire s1 = wire s" and "my_socket s1 = my_socket s" and "connected s1 = connected s"
    and "event_storage s1 = event_storage s" and "bulk_send_list s1 = bulk_send_list s"
    and "sending_queue s1 = sending_queue s" and "wapp_log s1 = wapp_log s"
proof -
  have "s1 = s\<lparr>packet_awaiting_confirm := packet_awaiting_confirm s1\<rparr>"
    by (rule register_loop_frame [OF assms])
  then obtain p where "s1 = s\<lparr>packet_awaiting_confirm := p\<rparr>" ..
  then show "wire s1 = wire s" and "my_socket s1 = my_socket s" and "connected s1 = connected s"
    and "event_storage s1 = event_storage s" and "bulk_send_list s1 = bulk_send_list s"
    and "sending_queue s1 = sending_queue s" and "wapp_log s1 = wapp_log s"
    by simp_all
qed

lemma register_loop_keys:
  "register_loop d s = Inr s1 \<Longrightarrow>
     fst ` set (packet_awaiting_confirm s1) =
       fst ` set (packet_awaiting_confirm s) \<union> {k. \<exists>el\<in>set d. is_mutating el \<and> entry_key el = Inr k}"
proof (induction d arbitrary: s)
  case Nil
  then show ?case by simp
next
  case (Cons el rest)
  from register_loop_step [OF Cons.prems] show ?case
  proof (elim disjE conjE exE)
    fix k
    assume m: "is_mutating el" and k: "entry_key el = Inr k"
      and r: "register_loop rest (s\<lparr>packet_awaiting_confirm := AList.update k el (packet_awaiting_confirm s)\<rparr>) = Inr s1"
    from Cons.IH [OF r] m k show ?thesis
      by (auto simp: dom_update)
  next
    assume m: "\<not> is_mutating el" and r: "register_loop rest s = Inr s1"
    from Cons.IH [OF r] m show ?thesis by auto
  qed
qed

lemma register_loop_values:
  "register_loop d s = Inr s1 \<Longrightarrow> map_of (packet_awaiting_confirm s1) k = Some v \<Longrightarrow>
     map_of (packet_awaiting_confirm s) k = Some v
     \<or> (v \<in> set d \<and> is_mutating v \<and> entry_key v = Inr k)"
proof (induction d arbitrary: s)
  case Nil
  then show ?case by simp
next
  case (Cons el rest)
  from register_loop_step [OF Cons.prems(1)] show ?case
  proof (elim disjE conjE exE)
    fix k'
    assume m: "is_mutating el" and k': "entry_key el = Inr k'"
      and r: "register_loop rest (s\<lparr>packet_awaiting_confirm := AList.update k' el (packet_awaiting_confirm s)\<rparr>) = Inr s1"
    from Cons.IH [OF r Cons.prems(2)] m k' show ?thesis
      by (auto simp: update_conv' split: if_splits)
  next
    assume m: "\<not> is_mutating el" and r: "register_loop rest s = Inr s1"
    from Cons.IH [OF r Cons.prems(2)] show ?thesis by auto
  qed
qed

lemma register_loop_tracked:
  "register_loop d s = Inr s1 \<Longrightarrow> el \<in> set d \<Longrightarrow> is_mutating el \<Longrightarrow>
     \<exists>k. entry_key el = Inr k \<and> k \<in> fst ` set (packet_awaiting_confirm s1)"
proof (induction d arbitrary: s)
  case Nil
  then show ?case by simp
next
  case (Cons x rest)
  from register_loop_step [OF Cons.prems(1)] Cons.prems(2,3) show ?case
  proof (elim disjE conjE exE)
    fix k
    assume m: "is_mutating x" and k: "entry_key x = Inr k"
      and r: "register_loop rest (s\<lparr>packet_awaiting_confirm := AList.update k x (packet_awaiting_confirm s)\<rparr>) = Inr s1"
    show ?thesis
    proof (cases "el = x")
      case True
      with k register_loop_keys [OF r] show ?thesis by (auto simp: dom_update)
    next
      case False
      with Cons.prems(2) have "el \<in> set rest" by simp
      from Cons.IH [OF r this Cons.prems(3)] show ?thesis .
    qed
  next
    assume m: "\<not> is_mutating x" and r: "register_loop rest s = Inr s1"
    with Cons.prems(2,3) have "el \<in> set rest" by auto
    from Cons.IH [OF r this Cons.prems(3)] show ?thesis .
  qed
qed


lemma send_data_Return:
  assumes "connected s" and "send_data e data s = Return (d, s')"
  shows "strip_list_loop [] data = Inr d \<and>
     (\<exists>s1. register_loop d s = Inr s1 \<and>
        ((d = [] \<and> s' = s1) \<or>
         (d \<noteq> [] \<and> socket_send_ok e \<and> my_socket s1 \<noteq> None \<and>
          s' = (log_msg DEBUG ''Raw Send Json: {}'' (Some (JArr d)) s1)
                 \<lparr>wire := wire s1 @ [d]\<rparr>)))"
  using assms
  by (auto simp: send_data_def Let_def log_msg_def split: sum.splits if_splits option.splits)

lemma send_data_OSError:
  assumes "send_data e data s = Raise_OSError (d, s')"
  shows "connected s \<and> strip_list_loop [] data = Inr d \<and> d \<noteq> [] \<and> \<not> socket_send_ok e \<and>
     (\<exists>s1. register_loop d s = Inr s1 \<and>
        s' = log_msg DEBUG ''Raw Send Json: {}'' (Some (JArr d)) s1)"
  using assms
  by (auto simp: send_data_def Let_def log_msg_def split: sum.splits if_splits option.splits prod.splits)

lemma send_data_offline:
  assumes "\<not> connected s"
  shows "send_data e data s =
     (case strip_list_loop [] data of
        Inl err \<Rightarrow> Raise err
      | Inr d \<Rightarrow>
          (case add_message (recursion_limit e) e (JArr d) (event_storage s) of
             Inl (err, ml) \<Rightarrow> Raise err
           | Inr ml \<Rightarrow> Return (d, s\<lparr>event_storage := ml\<rparr>)))"
  using assms by (simp add: send_data_def split: sum.splits)


text \<open>
  Claim C9. A flush while \<open>connected\<close> is false leaves the pending-ack map as it was, also
  for entries whose method is \<^verbatim>\<open>PUT\<close>, \<^verbatim>\<open>POST\<close> or \<^verbatim>\<open>DELETE\<close>, and writes nothing to the
  socket: the whole list that the stripping loop leaves, mutating entries or not, is what
  \<^verbatim>\<open>add_message\<close> of the offline log receives, and the log it returns is the only attribute
  that changes. The same holds for \<^verbatim>\<open>create_bulk\<close> on a disconnected socket.
\<close>
theorem send_data_offline_logs_whole_batch:
  assumes "\<not> connected s"
  shows "send_data e data s =
     (case strip_list_loop [] data of
        Inl err \<Rightarrow> Raise err
      | Inr d \<Rightarrow>
          (case add_message (recursion_limit e) e (JArr d) (event_storage s) of
             Inl (err, ml) \<Rightarrow> Raise err
           | Inr ml \<Rightarrow> Return (d, s\<lparr>event_storage := ml\<rparr>)))
   \<and> (\<forall>d s'. send_data e data s = Return (d, s') \<longrightarrow>
         strip_list_loop [] data = Inr d
         \<and> add_message (recursion_limit e) e (JArr d) (event_storage s) = Inr (event_storage s')
         \<and> packet_awaiting_confirm s' = packet_awaiting_confirm s
         \<and> wire s' = wire s
         \<and> s' = s\<lparr>event_storage := event_storage s'\<rparr>)
   \<and> (\<forall>r. send_data e data s \<noteq> Raise_OSError r)
   \<and> (\<forall>s'. create_bulk e msg s = Inr s' \<longrightarrow>
         packet_awaiting_confirm s' = packet_awaiting_confirm s \<and> wire s' = wire s)"
proof (intro conjI allI impI)
  show "send_data e data s =
     (case strip_list_loop [] data of
        Inl err \<Rightarrow> Raise err
      | Inr d \<Rightarrow>
          (case add_message (recursion_limit e) e (JArr d) (event_storage s) of
             Inl (err, ml) \<Rightarrow> Raise err
           | Inr ml \<Rightarrow> Return (d, s\<lparr>event_storage := ml\<rparr>)))"
    by (rule send_data_offline [OF assms])
next
  fix d s' assume r: "send_data e data s = Return (d, s')"
  then have *: "strip_list_loop [] data = Inr d
      \<and> (\<exists>ml. add_message (recursion_limit e) e (JArr d) (event_storage s) = Inr ml
               \<and> s' = s\<lparr>event_storage := ml\<rparr>)"
    unfolding send_data_offline [OF assms]
    by (auto split: sum.splits prod.splits)
  from * show "strip_list_loop [] data = Inr d" by simp
  from * show "add_message (recursion_limit e) e (JArr d) (event_storage s) = Inr (event_storage s')"
    by auto
  from * show "packet_awaiting_confirm s' = packet_awaiting_confirm s" by auto
  from * show "wire s' = wire s" by auto
  from * show "s' = s\<lparr>event_storage := event_storage s'\<rparr>" by auto
next
  fix r show "send_data e data s \<noteq> Raise_OSError r"
    unfolding send_data_offline [OF assms]
    by (auto split: sum.splits prod.splits)
next
  fix s' assume c: "create_bulk e msg s = Inr s'"
  have nc: "\<not> connected (appended msg s)"
    using assms by (simp add: appended_def)
  have same: "packet_awaiting_confirm (appended msg s) = packet_awaiting_confirm s
      \<and> wire (appended msg s) = wire s"
    by (simp add: appended_def)
  have "packet_awaiting_confirm s' = packet_awaiting_confirm (appended msg s)
      \<and> wire s' = wire (appended msg s)"
    using c unfolding create_bulk_def appended_def [symmetric] Let_def
      send_data_offline [OF nc]
    by (auto split: if_splits sum.splits prod.splits)
  with same show "packet_awaiting_confirm s' = packet_awaiting_confirm s" by simp
  from \<open>packet_awaiting_confirm s' = packet_awaiting_confirm (appended msg s)
      \<and> wire s' = wire (appended msg s)\<close> same show "wire s' = wire s" by simp
qed


text \<open>
  Claim C2. When a batch is flushed while connected, and \<^verbatim>\<open>send_data\<close> returns or its socket
  write raises \<^verbatim>\<open>OSError\<close>, the keys of the pending-ack map afterwards are the keys before
  and the ids of the entries of the flushed list whose method is \<^verbatim>\<open>PUT\<close>, \<^verbatim>\<open>POST\<close> or
  \<^verbatim>\<open>DELETE\<close>; every such entry is tracked under its id, and nothing else is inserted: a
  value found in the map is one that was there or a mutating entry under its own id. The
  registration precedes the write, so the map is the same whether the write succeeds (the
  frame is appended to the wire) or fails (the wire is unchanged).
\<close>
theorem send_data_registers_mutating_before_write:
  assumes "connected s"
    and "send_data e data s = Return (d, s') \<or> send_data e data s = Raise_OSError (d, s')"
  shows "strip_list_loop [] data = Inr d
   \<and> fst ` set (packet_awaiting_confirm s') =
        fst ` set (packet_awaiting_confirm s)
          \<union> {k. \<exists>el\<in>set d. is_mutating el \<and> entry_key el = Inr k}
   \<and> (\<forall>k v. map_of (packet_awaiting_confirm s') k = Some v \<longrightarrow>
          map_of (packet_awaiting_confirm s) k = Some v
          \<or> (v \<in> set d \<and> is_mutating v \<and> entry_key v = Inr k))
   \<and> (\<forall>el\<in>set d. is_mutating el \<longrightarrow>
          (\<exists>k. entry_key el = Inr k \<and> k \<in> fst ` set (packet_awaiting_confirm s')))
   \<and> (send_data e data s = Raise_OSError (d, s') \<longrightarrow>
          \<not> socket_send_ok e \<and> wire s' = wire s)
   \<and> (send_data e data s = Return (d, s') \<longrightarrow>
          wire s' = (if d = [] then wire s else wire s @ [d]))"
proof -
  from assms obtain s1 where strip: "strip_list_loop [] data = Inr d"
    and reg: "register_loop d s = Inr s1"
    and pac: "packet_awaiting_confirm s' = packet_awaiting_confirm s1"
    and w1: "wire s1 = wire s"
    and os: "send_data e data s = Raise_OSError (d, s') \<longrightarrow>
               \<not> socket_send_ok e \<and> wire s' = wire s1"
    and rt: "send_data e data s = Return (d, s') \<longrightarrow>
               wire s' = (if d = [] then wire s1 else wire s1 @ [d])"
  proof (elim disjE)
    assume r: "send_data e data s = Return (d, s')"
    from send_data_Return [OF assms(1) r] obtain s1 where
      a: "strip_list_loop [] data = Inr d" and b: "register_loop d s = Inr s1"
      and c: "(d = [] \<and> s' = s1) \<or>
         (d \<noteq> [] \<and> socket_send_ok e \<and> my_socket s1 \<noteq> None \<and>
          s' = (log_msg DEBUG ''Raw Send Json: {}'' (Some (JArr d)) s1)
                 \<lparr>wire := wire s1 @ [d]\<rparr>)"
      by blast
    from register_loop_fields [OF b] have w: "wire s1 = wire s"
      by simp
    from c have p: "packet_awaiting_confirm s' = packet_awaiting_confirm s1"
      by (auto simp: log_msg_def)
    from c have rt: "wire s' = (if d = [] then wire s1 else wire s1 @ [d])"
      by (auto simp: log_msg_def)
    from r have "send_data e data s \<noteq> Raise_OSError (d, s')" by simp
    with a b p w rt that show ?thesis by blast
  next
    assume r: "send_data e data s = Raise_OSError (d, s')"
    from send_data_OSError [OF r] obtain s1 where
      a: "strip_list_loop [] data = Inr d" and b: "register_loop d s = Inr s1"
      and c: "s' = log_msg DEBUG ''Raw Send Json: {}'' (Some (JArr d)) s1"
      and n: "\<not> socket_send_ok e"
      by blast
    from register_loop_fields [OF b] have w: "wire s1 = wire s"
      by simp
    from c have p: "packet_awaiting_confirm s' = packet_awaiting_confirm s1"
      and w': "wire s' = wire s1"
      by (auto simp: log_msg_def)
    from r have "send_data e data s \<noteq> Return (d, s')" by simp
    with a b p w w' n that show ?thesis by blast
  qed
  show ?thesis
  proof (intro conjI allI impI ballI)
    show "strip_list_loop [] data = Inr d" by (rule strip)
  next
    show "fst ` set (packet_awaiting_confirm s') =
        fst ` set (packet_awaiting_confirm s)
          \<union> {k. \<exists>el\<in>set d. is_mutating el \<and> entry_key el = Inr k}"
      unfolding pac by (rule register_loop_keys [OF reg])
  next
    fix k v assume "map_of (packet_awaiting_confirm s') k = Some v"
    then show "map_of (packet_awaiting_confirm s) k = Some v
          \<or> (v \<in> set d \<and> is_mutating v \<and> entry_key v = Inr k)"
      unfolding pac by (rule register_loop_values [OF reg])
  next
    fix el assume "el \<in> set d" and "is_mutating el"
    then show "\<exists>k. entry_key el = Inr k \<and> k \<in> fst ` set (packet_awaiting_confirm s')"
      unfolding pac by (rule register_loop_tracked [OF reg])
  next
    assume "send_data e data s = Raise_OSError (d, s')"
    with os show "\<not> socket_send_ok e" by simp
  next
    assume "send_data e data s = Raise_OSError (d, s')"
    with os w1 show "wire s' = wire s" by simp
  next
    assume "send_data e data s = Return (d, s')"
    with rt w1 show "wire s' = (if d = [] then wire s else wire s @ [d])" by simp
  qed
qed


lemma create_bulk_unfold:
  "create_bulk e msg s =
     (if flush_condition (appended msg s) then
        (case send_data e (bulk_send_list (appended msg s)) (appended msg s) of
           Return (d, s2) \<Rightarrow> Inr (s2\<lparr>bulk_send_list := []\<rparr>)
         | Raise_OSError (d, s2) \<Rightarrow>
             Inr (log_msg ERROR ''Error sending message: {}'' None
                    (s2\<lparr>bulk_send_list := d, connected := False\<rparr>))
         | Raise err \<Rightarrow> Inl err)
      else Inr (appended msg s))"
  by (simp add: create_bulk_def appended_def Let_def)

lemma appended_fields:
  "wire (appended msg s) = wire s"
  "event_storage (appended msg s) = event_storage s"
  "packet_awaiting_confirm (appended msg s) = packet_awaiting_confirm s"
  "sending_queue (appended msg s) = sending_queue s"
  "connected (appended msg s) = connected s"
  "my_socket (appended msg s) = my_socket s"
  by (simp_all add: appended_def)

lemma flush_condition_iff:
  "flush_condition t \<longleftrightarrow>
     (sending_queue t = [] \<and> packet_awaiting_confirm t = []) \<or> 10 \<le> length (bulk_send_list t)"
  by (simp add: flush_condition_def MAX_BULK_SIZE_def)

lemma send_data_wire:
  assumes "send_data e data t = Return (d, t')"
  shows "wire t' = wire t \<or> (d \<noteq> [] \<and> strip_list_loop [] data = Inr d \<and> wire t' = wire t @ [d])"
proof (cases "connected t")
  case True
  from send_data_Return [OF True assms] obtain s1 where
    a: "strip_list_loop [] data = Inr d" and b: "register_loop d t = Inr s1"
    and c: "(d = [] \<and> t' = s1) \<or>
       (d \<noteq> [] \<and> socket_send_ok e \<and> my_socket s1 \<noteq> None \<and>
        t' = (log_msg DEBUG ''Raw Send Json: {}'' (Some (JArr d)) s1)\<lparr>wire := wire s1 @ [d]\<rparr>)"
    by blast
  from register_loop_fields [OF b] have w: "wire s1 = wire t"
    by simp
  from c a w show ?thesis by (auto simp: log_msg_def)
next
  case False
  from assms show ?thesis
    unfolding send_data_offline [OF False]
    by (auto split: sum.splits prod.splits)
qed

lemma send_data_OSError_wire:
  assumes "send_data e data t = Raise_OSError (d, t')"
  shows "wire t' = wire t"
proof -
  from send_data_OSError [OF assms] obtain s1 where
    b: "register_loop d t = Inr s1"
    and c: "t' = log_msg DEBUG ''Raw Send Json: {}'' (Some (JArr d)) s1"
    by blast
  from register_loop_fields [OF b] have w: "wire s1 = wire t"
    by simp
  with c show ?thesis by (simp add: log_msg_def)
qed

lemma create_bulk_wire:
  assumes "create_bulk e msg s = Inr s'"
  shows "wire s' = wire s \<or>
     (\<exists>frame. frame \<noteq> [] \<and> strip_list_loop [] (bulk_send_list (appended msg s)) = Inr frame
        \<and> wire s' = wire s @ [frame])"
proof (cases "flush_condition (appended msg s)")
  case False
  with assms have "s' = appended msg s" by (simp add: create_bulk_unfold)
  then show ?thesis by (simp add: appended_fields)
next
  case True
  show ?thesis
  proof (cases "send_data e (bulk_send_list (appended msg s)) (appended msg s)")
    case (Return r)
    obtain d t' where r: "r = (d, t')" by (cases r)
    from assms True Return r have s': "s' = t'\<lparr>bulk_send_list := []\<rparr>"
      by (simp add: create_bulk_unfold)
    from send_data_wire [OF Return [unfolded r]] s' show ?thesis
      by (auto simp: appended_fields)
  next
    case (Raise_OSError r)
    obtain d t' where r: "r = (d, t')" by (cases r)
    from assms True Raise_OSError r have s':
      "s' = log_msg ERROR ''Error sending message: {}'' None (t'\<lparr>bulk_send_list := d, connected := False\<rparr>)"
      by (simp add: create_bulk_unfold)
    from send_data_OSError_wire [OF Raise_OSError [unfolded r]] s' show ?thesis
      by (simp add: appended_fields log_msg_def)
  next
    case (Raise err)
    with assms True show ?thesis by (simp add: create_bulk_unfold)
  qed
qed

lemma create_bulk_no_effect_without_flush:
  assumes "create_bulk e msg s = Inr s'"
    and "wire s' \<noteq> wire s \<or> event_storage s' \<noteq> event_storage s
         \<or> packet_awaiting_confirm s' \<noteq> packet_awaiting_confirm s"
  shows "flush_condition (appended msg s)"
proof (rule ccontr)
  assume "\<not> flush_condition (appended msg s)"
  with assms(1) have "s' = appended msg s" by (simp add: create_bulk_unfold)
  with assms(2) show False by (simp add: appended_fields)
qed

lemma send_data_connected_ok:
  assumes c: "connected t" and ok: "socket_send_ok e" and sk: "my_socket t \<noteq> None"
    and st: "strip_list_loop [] data = Inr d" and rg: "register_loop d t = Inr s1"
  shows "send_data e data t =
     Return (d, if d = [] then s1
                else (log_msg DEBUG ''Raw Send Json: {}'' (Some (JArr d)) s1)\<lparr>wire := wire s1 @ [d]\<rparr>)"
proof -
  from register_loop_fields(2) [OF rg] sk obtain sock where "my_socket s1 = Some sock"
    by auto
  then have "my_socket (log_msg DEBUG ''Raw Send Json: {}'' (Some (JArr d)) s1) = Some sock"
    by (simp add: log_msg_fields)
  with c ok st rg show ?thesis
    by (simp add: send_data_def Let_def log_msg_fields)
qed

lemma create_bulk_connected_flush:
  assumes f: "flush_condition (appended msg s)" and c: "connected s" and ok: "socket_send_ok e"
    and sk: "my_socket s \<noteq> None"
    and st: "strip_list_loop [] (bulk_send_list (appended msg s)) = Inr d"
    and rg: "register_loop d (appended msg s) = Inr s1"
  shows "\<exists>s'. create_bulk e msg s = Inr s' \<and> bulk_send_list s' = []
           \<and> wire s' = (if d = [] then wire s else wire s @ [d])"
proof -
  from register_loop_fields(1) [OF rg] have w: "wire s1 = wire s"
    by (simp add: appended_fields)
  have "send_data e (bulk_send_list (appended msg s)) (appended msg s) =
     Return (d, if d = [] then s1
                else (log_msg DEBUG ''Raw Send Json: {}'' (Some (JArr d)) s1)\<lparr>wire := wire s1 @ [d]\<rparr>)"
    by (rule send_data_connected_ok [OF _ ok _ st rg]) (simp_all add: appended_fields c sk)
  with f w show ?thesis
    by (simp add: create_bulk_unfold log_msg_def)
qed

lemma create_bulk_all_no_empty_frame:
  "create_bulk_all calls s = Inr s' \<Longrightarrow> [] \<notin> set (wire s) \<Longrightarrow> [] \<notin> set (wire s')"
proof (induction calls arbitrary: s)
  case Nil
  then show ?case by simp
next
  case (Cons c calls)
  obtain e msg where c: "c = (e, msg)" by (cases c)
  from Cons.prems(1) c obtain t where t: "create_bulk e msg s = Inr t"
    and r: "create_bulk_all calls t = Inr s'"
    by (auto split: sum.splits)
  from create_bulk_wire [OF t] Cons.prems(2) have "[] \<notin> set (wire t)" by auto
  from Cons.IH [OF r this] show ?case .
qed


text \<open>
  The flush rule. \<^verbatim>\<open>create_bulk\<close> calls \<^verbatim>\<open>send_data\<close> on the accumulated batch exactly when,
  after the new message is appended, the sending queue and the pending-ack map are both
  empty or the batch holds at least 10 entries. Otherwise the call only appends; whenever
  the wire, the offline log or the pending-ack map changes the condition held; when it
  holds on a connected socket whose write succeeds, what the stripping loop of
  \<^verbatim>\<open>send_data\<close> leaves of the batch is written as one frame and the list is emptied. A frame
  of length 0 is never written, in one call and along every sequence of calls.
\<close>

lemma create_bulk_flush_rule:
  "(flush_condition (appended msg s) \<longleftrightarrow>
      (sending_queue s = [] \<and> packet_awaiting_confirm s = [])
      \<or> 10 \<le> length (bulk_send_list (appended msg s)))
   \<and> (\<not> flush_condition (appended msg s) \<longrightarrow> create_bulk e msg s = Inr (appended msg s))
   \<and> (flush_condition (appended msg s) \<longrightarrow>
        create_bulk e msg s =
          (case send_data e (bulk_send_list (appended msg s)) (appended msg s) of
             Return (d, s2) \<Rightarrow> Inr (s2\<lparr>bulk_send_list := []\<rparr>)
           | Raise_OSError (d, s2) \<Rightarrow>
               Inr (log_msg ERROR ''Error sending message: {}'' None
                      (s2\<lparr>bulk_send_list := d, connected := False\<rparr>))
           | Raise err \<Rightarrow> Inl err))
   \<and> (\<forall>s'. create_bulk e msg s = Inr s' \<longrightarrow>
          (wire s' \<noteq> wire s \<or> event_storage s' \<noteq> event_storage s
           \<or> packet_awaiting_confirm s' \<noteq> packet_awaiting_confirm s) \<longrightarrow>
          flush_condition (appended msg s))
   \<and> (\<forall>d s1. flush_condition (appended msg s) \<and> connected s \<and> socket_send_ok e
          \<and> my_socket s \<noteq> None
          \<and> strip_list_loop [] (bulk_send_list (appended msg s)) = Inr d
          \<and> register_loop d (appended msg s) = Inr s1 \<longrightarrow>
          (\<exists>s'. create_bulk e msg s = Inr s' \<and> bulk_send_list s' = []
             \<and> wire s' = (if d = [] then wire s else wire s @ [d])))
   \<and> (\<forall>s'. create_bulk e msg s = Inr s' \<longrightarrow>
          wire s' = wire s
          \<or> (\<exists>frame. frame \<noteq> []
                \<and> strip_list_loop [] (bulk_send_list (appended msg s)) = Inr frame
                \<and> wire s' = wire s @ [frame]))
   \<and> (\<forall>calls s'. create_bulk_all calls s = Inr s' \<longrightarrow> [] \<notin> set (wire s) \<longrightarrow>
          [] \<notin> set (wire s'))"
proof (intro conjI allI impI)
  show "flush_condition (appended msg s) \<longleftrightarrow>
      (sending_queue s = [] \<and> packet_awaiting_confirm s = [])
      \<or> 10 \<le> length (bulk_send_list (appended msg s))"
    by (simp add: flush_condition_iff appended_fields)
next
  assume "\<not> flush_condition (appended msg s)"
  then show "create_bulk e msg s = Inr (appended msg s)"
    by (simp add: create_bulk_unfold)
next
  assume "flush_condition (appended msg s)"
  then show "create_bulk e msg s =
          (case send_data e (bulk_send_list (appended msg s)) (appended msg s) of
             Return (d, s2) \<Rightarrow> Inr (s2\<lparr>bulk_send_list := []\<rparr>)
           | Raise_OSError (d, s2) \<Rightarrow>
               Inr (log_msg ERROR ''Error sending message: {}'' None
                      (s2\<lparr>bulk_send_list := d, connected := False\<rparr>))
           | Raise err \<Rightarrow> Inl err)"
    by (simp add: create_bulk_unfold)
next
  fix s' assume "create_bulk e msg s = Inr s'"
    and "wire s' \<noteq> wire s \<or> event_storage s' \<noteq> event_storage s
           \<or> packet_awaiting_confirm s' \<noteq> packet_awaiting_confirm s"
  then show "flush_condition (appended msg s)"
    by (rule create_bulk_no_effect_without_flush)
next
  fix d s1
  assume h: "flush_condition (appended msg s) \<and> connected s \<and> socket_send_ok e
          \<and> my_socket s \<noteq> None
          \<and> strip_list_loop [] (bulk_send_list (appended msg s)) = Inr d
          \<and> register_loop d (appended msg s) = Inr s1"
  then show "\<exists>s'. create_bulk e msg s = Inr s' \<and> bulk_send_list s' = []
             \<and> wire s' = (if d = [] then wire s else wire s @ [d])"
    using create_bulk_connected_flush [of msg s e d s1] by blast
next
  fix s' assume "create_bulk e msg s = Inr s'"
  then show "wire s' = wire s
          \<or> (\<exists>frame. frame \<noteq> []
                \<and> strip_list_loop [] (bulk_send_list (appended msg s)) = Inr frame
                \<and> wire s' = wire s @ [frame])"
    by (rule create_bulk_wire)
next
  fix calls s' assume "create_bulk_all calls s = Inr s'" and "[] \<notin> set (wire s)"
  then show "[] \<notin> set (wire s')"
    by (rule create_bulk_all_no_empty_frame)
qed

text \<open>
  The flush rule at a \<^verbatim>\<open>PUT\<close> request: with a reply waiting on the queue it is only
  appended; on the idle socket it is flushed as one frame; a message that strips to
  nothing is flushed without a frame; the tenth entry of a batch is flushed although a
  reply is waiting.
\<close>

lemma eval_busy_no_flush: "flush_condition (appended msg_put sock_busy) = False"
  by code_simp

lemma eval_idle_flush: "flush_condition (appended msg_put sock0)"
  by code_simp

lemma eval_idle_wire:
  "map_sum id wire (create_bulk env_ok msg_put sock0) = Inr [[msg_put_stripped]]"
  by code_simp

lemma eval_empty_flush:
  "map_sum id wire (create_bulk env_ok (JObj [(''a'', JNull)]) sock0) = Inr []"
  by code_simp

lemma eval_tenth_entry:
  "flush_condition (appended msg_get sock_busy_nine)
   \<and> length (bulk_send_list (appended msg_get sock_busy_nine)) = 10
   \<and> map_sum id wire (create_bulk env_ok msg_get sock_busy_nine) = Inr [replicate 10 msg_get]"
  by code_simp

lemma create_bulk_flush_rule_examples:
  "\<not> flush_condition (appended msg_put sock_busy)
   \<and> create_bulk env_ok msg_put sock_busy = Inr (appended msg_put sock_busy)
   \<and> flush_condition (appended msg_put sock0)
   \<and> map_sum id wire (create_bulk env_ok msg_put sock0) = Inr [[msg_put_stripped]]
   \<and> map_sum id wire (create_bulk env_ok (JObj [(''a'', JNull)]) sock0) = Inr []
   \<and> flush_condition (appended msg_get sock_busy_nine)
   \<and> map_sum id wire (create_bulk env_ok msg_get sock_busy_nine) = Inr [replicate 10 msg_get]"
  using create_bulk_flush_rule [of msg_put sock_busy env_ok]
    eval_busy_no_flush eval_idle_flush eval_idle_wire eval_empty_flush eval_tenth_entry
  by simp

text \<open>
  Claim C1 fails on its second part. The flush rule is the claimed one, but the stripping
  loop of \<^verbatim>\<open>send_data\<close> steps over the entry that follows a removed one, so a batch that is
  empty after stripping can reach the socket. On an idle socket whose batch holds
  \<^verbatim>\<open>{"a": null}\<close>, enqueuing \<^verbatim>\<open>{"b": null}\<close> writes the frame \<^verbatim>\<open>[{"b": null}]\<close>, and enqueuing
  \<^verbatim>\<open>{}\<close> writes the frame \<^verbatim>\<open>[{}]\<close>. Ten enqueues of \<^verbatim>\<open>{"a": null}\<close> while a reply waits on the
  queue flush at the tenth and write a frame of five such entries. Stripped as
  specified, each of these batches is empty.
\<close>

theorem create_bulk_writes_batch_empty_after_stripping:
  "flush_condition (appended (JObj [(''b'', JNull)]) sock_one_null)
   \<and> spec_strip_list (bulk_send_list (appended (JObj [(''b'', JNull)]) sock_one_null)) = []
   \<and> map_sum id wire (create_bulk env_ok (JObj [(''b'', JNull)]) sock_one_null) =
        Inr [[JObj [(''b'', JNull)]]]
   \<and> spec_strip_list (bulk_send_list (appended (JObj []) sock_one_null)) = []
   \<and> map_sum id wire (create_bulk env_ok (JObj []) sock_one_null) = Inr [[JObj []]]
   \<and> spec_strip_list (map snd ten_null_calls) = []
   \<and> map_sum id bulk_send_list (create_bulk_all (take 9 ten_null_calls) sock_busy) =
        Inr (replicate 9 msg_null)
   \<and> map_sum id wire (create_bulk_all (take 9 ten_null_calls) sock_busy) = Inr []
   \<and> map_sum id wire (create_bulk_all ten_null_calls sock_busy) = Inr [replicate 5 msg_null]"
  by code_simp


text \<open>
  Claim C2 at a batch of a \<^verbatim>\<open>PUT\<close> and a \<^verbatim>\<open>GET\<close> whose write fails: the \<^verbatim>\<open>PUT\<close> is tracked, the
  \<^verbatim>\<open>GET\<close> is not.
\<close>
lemma eval_send_fail:
  "raised_OSError (send_data env_fail [msg_put, msg_get] sock0) =
     Some ([msg_put_stripped, msg_get], [(KInt 1, msg_put_stripped)], [])"
  by code_simp

lemma eval_sock0_connected: "connected sock0"
  by code_simp

lemma eval_msg_mutating: "is_mutating msg_put_stripped \<and> \<not> is_mutating msg_get"
  by code_simp

theorem send_data_registers_mutating_before_write_witness:
  "connected sock0
   \<and> (\<exists>s'. send_data env_fail [msg_put, msg_get] sock0 =
              Raise_OSError ([msg_put_stripped, msg_get], s')
          \<and> packet_awaiting_confirm s' = [(KInt 1, msg_put_stripped)]
          \<and> wire s' = wire sock0
          \<and> (\<exists>k. entry_key msg_put_stripped = Inr k
                 \<and> k \<in> fst ` set (packet_awaiting_confirm s')))
   \<and> \<not> socket_send_ok env_fail"
proof -
  from eval_send_fail obtain s' where
    r: "send_data env_fail [msg_put, msg_get] sock0 =
          Raise_OSError ([msg_put_stripped, msg_get], s')"
    and p: "packet_awaiting_confirm s' = [(KInt 1, msg_put_stripped)]"
    by (auto simp: raised_OSError_def split: outcome.splits prod.splits)
  from r have "send_data env_fail [msg_put, msg_get] sock0 =
          Return ([msg_put_stripped, msg_get], s') \<or>
        send_data env_fail [msg_put, msg_get] sock0 =
          Raise_OSError ([msg_put_stripped, msg_get], s')"
    by simp
  from send_data_registers_mutating_before_write [OF eval_sock0_connected this] r
    eval_msg_mutating
  have "\<not> socket_send_ok env_fail" and "wire s' = wire sock0"
    and "\<exists>k. entry_key msg_put_stripped = Inr k
           \<and> k \<in> fst ` set (packet_awaiting_confirm s')"
    by auto
  with r p eval_sock0_connected show ?thesis by blast
qed

text \<open>Claim C9 at the same batch on a disconnected socket.\<close>

lemma eval_offline: "\<not> connected sock_offline"
  by code_simp

lemma eval_send_offline:
  "returned (send_data env_ok [msg_put, msg_get] sock_offline) =
     Some ([msg_put_stripped, msg_get], [], [])"
  by code_simp

lemma eval_add_message_offline:
  "map_sum fst log_location
     (add_message (recursion_limit env_ok) env_ok (JArr [msg_put_stripped, msg_get])
        (event_storage sock_offline)) =
   Inr (Some [(''2020-10-1.txt'',
               Plain (''[{\"id\": 1, \"method\": \"PUT\"}, {\"id\": 2, \"method\": \"GET\"}] '' @ [CHR 0x0A]))])"
  by code_simp

theorem send_data_offline_logs_whole_batch_witness:
  "\<not> connected sock_offline
   \<and> (\<exists>s'. send_data env_ok [msg_put, msg_get] sock_offline =
              Return ([msg_put_stripped, msg_get], s')
          \<and> packet_awaiting_confirm s' = packet_awaiting_confirm sock_offline
          \<and> wire s' = wire sock_offline
          \<and> log_location (event_storage s') =
              Some [(''2020-10-1.txt'',
                     Plain (''[{\"id\": 1, \"method\": \"PUT\"}, {\"id\": 2, \"method\": \"GET\"}] ''
                            @ [CHR 0x0A]))])"
proof -
  from eval_send_offline obtain s' where
    r: "send_data env_ok [msg_put, msg_get] sock_offline =
          Return ([msg_put_stripped, msg_get], s')"
    by (auto simp: returned_def split: outcome.splits prod.splits)
  from send_data_offline_logs_whole_batch [OF eval_offline, of env_ok "[msg_put, msg_get]"] r
  have a: "add_message (recursion_limit env_ok) env_ok (JArr [msg_put_stripped, msg_get])
             (event_storage sock_offline) = Inr (event_storage s')"
    and b: "packet_awaiting_confirm s' = packet_awaiting_confirm sock_offline"
    and c: "wire s' = wire sock_offline"
    by blast+
  from a eval_add_message_offline have "log_location (event_storage s') =
      Some [(''2020-10-1.txt'',
             Plain (''[{\"id\": 1, \"method\": \"PUT\"}, {\"id\": 2, \"method\": \"GET\"}] ''
                    @ [CHR 0x0A]))]"
    by simp
  with r b c eval_offline show ?thesis by blast
qed

text \<open>
  Claim C6 fails when the socket write raises \<^verbatim>\<open>OSError\<close>: \<^verbatim>\<open>bulk_send_list.clear()\<close> is
  skipped, and the list still holds the stripped batch.
\<close>
theorem create_bulk_keeps_batch_on_OSError_counterexample:
  "flush_condition (appended msg_put sock0)
   \<and> map_sum id bulk_send_list (create_bulk env_fail msg_put sock0) = Inr [msg_put_stripped]"
  by code_simp

text \<open>
  Claim C6, amended. After a flush attempt that \<^verbatim>\<open>create_bulk\<close> survives, the batch list is
  empty when \<^verbatim>\<open>send_data\<close> returned; when the socket write raised \<^verbatim>\<open>OSError\<close> the list is
  not cleared: it holds the stripped, non-empty batch, and \<open>connected\<close> has been set to
  false.
\<close>

theorem create_bulk_clears_unless_OSError:
  assumes "flush_condition (appended msg s)" and "create_bulk e msg s = Inr s'"
  shows "(bulk_send_list s' = []
          \<and> (\<exists>r. send_data e (bulk_send_list (appended msg s)) (appended msg s) = Return r))
       \<or> (\<exists>d t. send_data e (bulk_send_list (appended msg s)) (appended msg s)
                   = Raise_OSError (d, t)
            \<and> strip_list_loop [] (bulk_send_list (appended msg s)) = Inr d
            \<and> d \<noteq> [] \<and> bulk_send_list s' = d
            \<and> connected s \<and> \<not> socket_send_ok e \<and> \<not> connected s')"
proof (cases "send_data e (bulk_send_list (appended msg s)) (appended msg s)")
  case (Return r)
  obtain d t where r: "r = (d, t)" by (cases r)
  from assms Return r have "s' = t\<lparr>bulk_send_list := []\<rparr>"
    by (simp add: create_bulk_unfold)
  then have "bulk_send_list s' = []" by simp
  with Return show ?thesis by blast
next
  case (Raise_OSError r)
  obtain d t where r: "r = (d, t)" by (cases r)
  from assms Raise_OSError r have s':
    "s' = log_msg ERROR ''Error sending message: {}'' None (t\<lparr>bulk_send_list := d, connected := False\<rparr>)"
    by (simp add: create_bulk_unfold)
  then have b: "bulk_send_list s' = d" and c: "\<not> connected s'"
    by (simp_all add: log_msg_fields)
  from send_data_OSError [OF Raise_OSError [unfolded r]]
  have "connected s" and "strip_list_loop [] (bulk_send_list (appended msg s)) = Inr d"
    and "d \<noteq> []" and "\<not> socket_send_ok e"
    by (simp_all add: appended_fields)
  with b c Raise_OSError r show ?thesis by blast
next
  case (Raise err)
  with assms show ?thesis by (simp add: create_bulk_unfold)
qed

text \<open>Claim C6 as amended, at a write that succeeds and at one that fails.\<close>

lemma eval_ok_cleared:
  "map_sum id bulk_send_list (create_bulk env_ok msg_put sock0) = Inr []"
  by code_simp

lemma eval_fail_kept:
  "map_sum id bulk_send_list (create_bulk env_fail msg_put sock0) = Inr [msg_put_stripped]"
  by code_simp

theorem create_bulk_clears_unless_OSError_witness:
  "flush_condition (appended msg_put sock0)
   \<and> (\<exists>s'. create_bulk env_ok msg_put sock0 = Inr s' \<and> bulk_send_list s' = []
          \<and> (\<exists>r. send_data env_ok (bulk_send_list (appended msg_put sock0))
                     (appended msg_put sock0) = Return r))
   \<and> (\<exists>s'. create_bulk env_fail msg_put sock0 = Inr s'
          \<and> bulk_send_list s' = [msg_put_stripped] \<and> \<not> connected s')"
proof -
  from eval_ok_cleared obtain s1 where
    a: "create_bulk env_ok msg_put sock0 = Inr s1" and a': "bulk_send_list s1 = []"
    by (cases "create_bulk env_ok msg_put sock0") auto
  from eval_fail_kept obtain s2 where
    b: "create_bulk env_fail msg_put sock0 = Inr s2"
    and b': "bulk_send_list s2 = [msg_put_stripped]"
    by (cases "create_bulk env_fail msg_put sock0") auto
  from create_bulk_clears_unless_OSError [OF eval_idle_flush a] a'
  have "\<exists>r. send_data env_ok (bulk_send_list (appended msg_put sock0))
               (appended msg_put sock0) = Return r"
    by auto
  moreover from create_bulk_clears_unless_OSError [OF eval_idle_flush b] b'
  have "\<not> connected s2"
    by (auto simp: msg_put_stripped_def)
  ultimately show ?thesis using eval_idle_flush a a' b b' by blast
qed

section \<open>The delta rule of the report scheduler\<close>

lemma py_float_exact:
  assumes n: "\<bar>n\<bar> < 2 ^ 53"
  shows "py_float n = Inr n"
proof -
  from n have e: "float_exponent \<bar>n\<bar> = 0"
    by (subst float_exponent.simps) (simp only: if_True)
  have "(2::int) ^ 53 \<le> 2 ^ 1024"
    by (rule power_increasing) simp_all
  with n have "\<not> 2 ^ 1024 \<le> \<bar>n\<bar>"
    by linarith
  then show ?thesis
    unfolding py_float_def e Let_def by (simp add: sgn_mult_abs)
qed

lemma py_fabs_small:
  assumes "small_sample a" and "small_sample b"
  shows "py_fabs (a - b) = Inr \<bar>a - b\<bar>"
proof -
  from assms have "\<bar>a - b\<bar> < 2 ^ 52 + 2 ^ 52"
    unfolding small_sample_def by linarith
  then have "\<bar>a - b\<bar> < 2 ^ 53" by simp
  from py_float_exact [OF this] show ?thesis
    by (simp add: py_fabs_def)
qed

lemma report_iteration_delta:
  assumes "delta_inv d prev th" and sx: "small_sample x"
  shows "\<exists>th'. report_iteration (Some x, t) th = Inr th' \<and> delta_inv d x th'
     \<and> send_state_calls th' = send_state_calls th @
          (if x \<noteq> prev \<and> \<bar>prev - x\<bar> \<ge> d then [\<lparr>st_data = Some x, st_timestamp = t\<rparr>] else [])"
proof -
  from assms obtain st where st: "report_state (self_value th) = Some st"
    by (auto simp: delta_inv_def)
  from assms have "small_sample prev" by (simp add: delta_inv_def)
  from py_fabs_small [OF this sx] have fb: "py_fabs (prev - x) = Inr \<bar>prev - x\<bar>" .
  show ?thesis
  proof (cases "x = prev")
    case True
    with assms st show ?thesis
      by (auto simp: delta_inv_def report_iteration_def Let_def is_number_type_def
          send_report_delta_def)
  next
    case False
    show ?thesis
    proof (cases "\<bar>prev - x\<bar> \<ge> d")
      case True
      with False assms st fb show ?thesis
        by (simp add: delta_inv_def report_iteration_def Let_def is_number_type_def
            send_report_delta_def send_report_now_def)
    next
      case ge: False
      with False assms st fb show ?thesis
        by (simp add: delta_inv_def report_iteration_def Let_def is_number_type_def
            send_report_delta_def)
    qed
  qed
qed

lemma report_loop_delta:
  "delta_inv d prev th \<Longrightarrow> \<forall>x\<in>set (map fst obs). small_sample x \<Longrightarrow>
     \<exists>th'. report_loop (observed obs) th = Inr th'
       \<and> map st_data (send_state_calls th') =
           map st_data (send_state_calls th) @ map Some (delta_rule_reports d prev (map fst obs))"
proof (induction obs arbitrary: prev th)
  case Nil
  then show ?case by (simp add: observed_def)
next
  case (Cons o1 obs)
  obtain x t where o1: "o1 = (x, t)" by (cases o1)
  from Cons.prems(2) o1 have sx: "small_sample x"
    and rest: "\<forall>x\<in>set (map fst obs). small_sample x"
    by simp_all
  from report_iteration_delta [OF Cons.prems(1) sx, of t] obtain th1 where
    it: "report_iteration (Some x, t) th = Inr th1" and inv: "delta_inv d x th1"
    and calls: "send_state_calls th1 = send_state_calls th @
          (if x \<noteq> prev \<and> \<bar>prev - x\<bar> \<ge> d then [\<lparr>st_data = Some x, st_timestamp = t\<rparr>] else [])"
    by blast
  from Cons.IH [OF inv rest] obtain th' where
    lp: "report_loop (observed obs) th1 = Inr th'"
    and r: "map st_data (send_state_calls th') =
           map st_data (send_state_calls th1) @ map Some (delta_rule_reports d x (map fst obs))"
    by blast
  from it lp have "report_loop (observed (o1 # obs)) th = Inr th'"
    by (simp add: observed_def o1)
  moreover from r calls have "map st_data (send_state_calls th') =
      map st_data (send_state_calls th) @ map Some (delta_rule_reports d prev (map fst (o1 # obs)))"
    by (simp add: o1)
  ultimately show ?case by blast
qed

text \<open>
  Claim C3, amended. For a number value with no period and delta \<open>d\<close>, started as
  \<^verbatim>\<open>__init__\<close> leaves it with a report state that holds \<open>x0\<close>, and for integer samples of
  magnitude below \<open>2 ^ 52\<close> (so that the float \<^verbatim>\<open>fabs\<close> returns is exact), the scheduler sends
  a delta report exactly at the samples that differ from the previously observed sample
  by at least \<open>d\<close>: the difference is taken between consecutive observations and is not
  accumulated since the last report. For delta 5, a report state that holds 10 at the
  start and the samples 10, 12, 16, 16, 21 that is one report, at 21.
\<close>

theorem delta_report_on_consecutive_difference:
  assumes "period v = None" and "delta v = Some d" and "data_type v = ''number''"
    and "report_state v = Some st" and "st_data st = Some x0"
    and "difference v = 0" and "delta_report v = 0"
    and "small_sample x0" and "\<forall>x\<in>set (map fst obs). small_sample x"
  shows "\<exists>th. send_report_thread (observed obs) v = Inr th
     \<and> map st_data (send_state_calls th) = map Some (delta_rule_reports d x0 (map fst obs))"
proof -
  let ?th = "\<lparr>self_value = v, local_value = st_data st, send_state_calls = []\<rparr>"
  from assms have "delta_inv d x0 ?th"
    by (simp add: delta_inv_def)
  from report_loop_delta [OF this assms(9)] assms(4) show ?thesis
    by (simp add: send_report_thread_def get_report_state_def)
qed

text \<open>
  Claim C3 fails: for delta 5, a report state that holds 10 at the start and the samples
  10, 12, 16, 16, 21 the scheduler sends one report, at 21, and none at 16 (the
  differences seen are 2, 4 and 5).
\<close>

theorem delta_report_counterexample:
  "map_sum id (map st_data \<circ> send_state_calls)
     (send_report_thread (observed samples_10_21) value_delta5) = Inr [Some 21]
   \<and> map_sum id (length \<circ> send_state_calls)
     (send_report_thread (observed samples_10_21) value_delta5) \<noteq> Inr 2"
  by code_simp

text \<open>Claim C3 as amended, at the samples of the claim.\<close>

lemma eval_delta_rule:
  "delta_rule_reports 5 10 (map fst samples_10_21) = [21]"
  "small_sample 10"
  "\<forall>x\<in>set (map fst samples_10_21). small_sample x"
  by code_simp+

theorem delta_report_on_consecutive_difference_witness:
  "period value_delta5 = None \<and> delta value_delta5 = Some 5
   \<and> data_type value_delta5 = ''number''
   \<and> report_state value_delta5 = Some \<lparr>st_data = Some 10, st_timestamp = 0\<rparr>
   \<and> difference value_delta5 = 0 \<and> delta_report value_delta5 = 0
   \<and> small_sample 10
   \<and> (\<exists>th. send_report_thread (observed samples_10_21) value_delta5 = Inr th
         \<and> map st_data (send_state_calls th) = [Some 21])"
  using delta_report_on_consecutive_difference
    [of value_delta5 5 "\<lparr>st_data = Some 10, st_timestamp = 0\<rparr>" 10 samples_10_21]
    eval_delta_rule
  by (simp add: value_delta5_def)

text \<open>
  Beyond that magnitude the float loses the low bits: a step from 0 to \<open>2 ^ 53 + 1\<close> is
  seen as \<open>2 ^ 53\<close>, and with delta \<open>2 ^ 53 + 1\<close> no report is sent although the samples
  differ by the delta.
\<close>

lemma delta_report_rounded_difference:
  "py_fabs (0 - (2 ^ 53 + 1)) = Inr (2 ^ 53)
   \<and> map_sum id (map st_data \<circ> send_state_calls)
       (send_report_thread (observed [(2 ^ 53 + 1, 1)]) value_delta_large) = Inr []
   \<and> delta_rule_reports (2 ^ 53 + 1) 0 [2 ^ 53 + 1] = [2 ^ 53 + 1]"
  by code_simp

section \<open>Inbound requests: malformed frames and unknown ids\<close>

lemma py_get_error: "py_get obj key = Inl e \<Longrightarrow> e = AttributeError \<and> py_get obj key' = Inl e"
  by (cases obj) auto

lemma py_get_path_error: "py_get_path obj keys = Inl e \<Longrightarrow> e = AttributeError"
  by (induction keys arbitrary: obj) (auto split: sum.splits dest: py_get_error)

lemma py_get_path_snoc:
  "py_get_path obj (keys @ [key]) =
     (case py_get_path obj keys of Inl e \<Rightarrow> Inl e | Inr v \<Rightarrow> py_get v key)"
  by (induction keys arbitrary: obj) (auto split: sum.splits)

lemma get_by_id_raises:
  "py_call (DataManager_getattr net ''get_by_id'') uuid = Inl TypeError"
  by (simp add: DataManager_getattr_def)

text \<open>
  A frame whose chain \<^verbatim>\<open>params.data.meta\<close> cannot be followed is logged and the handler
  returns; the sending queue is as before.
\<close>

lemma incoming_malformed_logged:
  assumes "py_get data ''id'' = Inr return_id"
    and "py_get_path data [''params'', ''data'', ''meta'', ''id''] = Inl err"
  shows "incoming_control on_found data s =
        Inr (log_msg ERROR ''Error received incorrect format in put: {}'' (Some data) s)"
    and "incoming_report_request on_found' data s =
        Inr (log_msg ERROR ''Error received incorrect format in get: {}'' (Some data) s)"
    and "incoming_delete_request on_found' data s =
        Inr (log_msg ERROR ''Error received incorrect format in delete: {}'' (Some data) s)"
    and "sending_queue (log_msg lvl msg obj s) = sending_queue s"
proof -
  from py_get_path_error [OF assms(2)] have e: "err = AttributeError" .
  from assms e show "incoming_control on_found data s =
        Inr (log_msg ERROR ''Error received incorrect format in put: {}'' (Some data) s)"
    by (simp add: incoming_control_def)
  from assms e show "incoming_report_request on_found' data s =
        Inr (log_msg ERROR ''Error received incorrect format in get: {}'' (Some data) s)"
    by (simp add: incoming_report_request_def)
  from assms e show "incoming_delete_request on_found' data s =
        Inr (log_msg ERROR ''Error received incorrect format in delete: {}'' (Some data) s)"
    by (simp add: incoming_delete_request_def)
  show "sending_queue (log_msg lvl msg obj s) = sending_queue s"
    by (simp add: log_msg_def)
qed

text \<open>
  A frame with a string id in \<^verbatim>\<open>params.data.meta\<close> reaches the lookup, and the lookup
  raises: none of the three handlers returns.
\<close>

lemma incoming_lookup_raises:
  assumes "py_get data ''id'' = Inr return_id"
    and "py_get_path data [''params'', ''data'', ''meta'', ''id''] = Inr (JStr uuid)"
    and "py_get_path data [''params'', ''data'', ''meta'', ''type''] = Inr meta_type"
  shows "\<exists>e. incoming_control on_found data s = Inl e"
    and "\<exists>e. incoming_report_request on_found' data s = Inl e"
    and "\<exists>e. incoming_delete_request on_found' data s = Inl e"
  using assms
  by (auto simp: incoming_control_def incoming_report_request_def incoming_delete_request_def
      get_by_id_raises split: sum.splits)

text \<open>
  Claim C5 fails. For a \<^verbatim>\<open>PUT\<close>, a \<^verbatim>\<open>GET\<close> and a \<^verbatim>\<open>DELETE\<close> frame without \<^verbatim>\<open>params.data.meta\<close>
  the handler logs the error and the sending queue stays empty: no error reply is sent to
  the peer. A \<^verbatim>\<open>PUT\<close> frame whose \<^verbatim>\<open>meta\<close> has no \<^verbatim>\<open>id\<close> leaves the handler by \<^verbatim>\<open>TypeError\<close>. A
  well-formed frame with an id that the data model does not know leaves each of the
  three handlers by \<^verbatim>\<open>TypeError\<close>, raised by the call of \<^verbatim>\<open>data_manager.get_by_id\<close>; no reply
  is queued.
\<close>

theorem incoming_request_no_reply_or_TypeError:
  "map_sum id sending_queue
     (incoming_control on_found_control frame_put_malformed sock0) = Inr []
   \<and> map_sum id wapp_log
     (incoming_control on_found_control frame_put_malformed sock0) =
       Inr [(ERROR, ''Error received incorrect format in put: {}'', Some frame_put_malformed)]
   \<and> map_sum id sending_queue
     (incoming_report_request on_found_other frame_get_malformed sock0) = Inr []
   \<and> map_sum id sending_queue
     (incoming_delete_request on_found_other frame_delete_malformed sock0) = Inr []
   \<and> map_sum id sending_queue
     (incoming_control on_found_control frame_put_no_id sock0) = Inl TypeError
   \<and> map_sum id sending_queue
     (incoming_control on_found_control (frame_unknown ''PUT'') sock0) = Inl TypeError
   \<and> map_sum id sending_queue
     (incoming_report_request on_found_other (frame_unknown ''GET'') sock0) = Inl TypeError
   \<and> map_sum id sending_queue
     (incoming_delete_request on_found_other (frame_unknown ''DELETE'') sock0) = Inl TypeError"
  by code_simp

section \<open>Defects of the code\<close>

text \<open>
  On a list that is safe in the sense of \<open>strip_safe_list\<close> the loops of the code strip as
  specified.
\<close>

lemma remove1_last_only: "x \<notin> set xs \<Longrightarrow> remove1 x (xs @ [x]) = xs"
  by (induction xs) auto

lemma strip_safe_list_rest:
  "strip_safe_list (JObj items # rest) \<Longrightarrow> spec_strip_items items \<noteq> [] \<Longrightarrow> strip_safe_list rest"
  by (cases rest) auto

lemma strip_safe_list_head:
  "strip_safe_list (JObj items # rest) \<Longrightarrow> strip_safe_items items"
  by (cases rest) auto

lemma strip_items_refines_spec:
    "strip_safe_items its \<Longrightarrow> get_object_without_none_values its = Inr (spec_strip_items its)"
  and strip_loop_refines_spec:
    "strip_safe_list xs \<Longrightarrow> JObj [] \<notin> set done \<Longrightarrow>
       strip_list_loop done xs = Inr (done @ spec_strip_list xs)"
proof (induction its and "done" xs rule: get_object_without_none_values_strip_list_loop.induct)
  case (7 "done" val_element rest)
  note safe = "7.prems"(1) and nd = "7.prems"(2)
  from strip_safe_list_head [OF safe] "7.IH"(1)
  have el: "get_object_without_none_values val_element = Inr (spec_strip_items val_element)"
    by simp
  show ?case
  proof (cases "spec_strip_items val_element = []")
    case True
    show ?thesis
    proof (cases rest)
      case Nil
      with True el nd show ?thesis by (simp add: remove1_last_only)
    next
      case (Cons y xs)
      with safe True have y: "spec_strip y = y" "y \<noteq> JObj []" and xs: "strip_safe_list xs"
        by simp_all
      from nd y have nd': "JObj [] \<notin> set (remove1 (JObj []) (done @ [JObj (spec_strip_items val_element)]) @ [y])"
        by (auto simp: remove1_last_only True)
      from True have len: "length (spec_strip_items val_element) = 0" by simp
      from "7.IH"(2) [OF el len Cons xs nd']
      have "strip_list_loop (remove1 (JObj []) (done @ [JObj (spec_strip_items val_element)]) @ [y]) xs =
          Inr ((remove1 (JObj []) (done @ [JObj (spec_strip_items val_element)]) @ [y]) @ spec_strip_list xs)" .
      with True el nd Cons y show ?thesis
        by (simp add: remove1_last_only)
    qed
  next
    case False
    from strip_safe_list_rest [OF safe False] have r: "strip_safe_list rest" .
    from nd False have nd': "JObj [] \<notin> set (done @ [JObj (spec_strip_items val_element)])"
      by simp
    from False have len: "length (spec_strip_items val_element) \<noteq> 0" by simp
    from "7.IH"(3) [OF el len r nd']
    have "strip_list_loop (done @ [JObj (spec_strip_items val_element)]) rest =
        Inr ((done @ [JObj (spec_strip_items val_element)]) @ spec_strip_list rest)" .
    with False el show ?thesis by simp
  qed
qed auto

lemma strip_list_loop_refines_spec:
  "strip_safe_list batch \<Longrightarrow> strip_list_loop [] batch = Inr (spec_strip_list batch)"
  using strip_loop_refines_spec [of batch "[]"] by simp

lemma eval_safe_batch:
  "strip_safe_list batch_null_then_clean
   \<and> strip_list_loop [] batch_null_then_clean = Inr [msg_get, msg_put_stripped]"
  by code_simp

text \<open>
  Claim C7 fails. The loops that strip a list remove an element while iterating over the
  same list, so the element that follows a removed one is stepped over: it is neither
  stripped nor dropped. From the batch \<^verbatim>\<open>[{"a": null}, {"b": null}]\<close> the code sends the
  frame \<^verbatim>\<open>[{"b": null}]\<close>, where stripping as specified leaves nothing; inside a message
  the list \<^verbatim>\<open>[{"data": null}, {"timestamp": null}]\<close> becomes \<^verbatim>\<open>[{"timestamp": null}]\<close> and the
  keys above it stay.
\<close>

theorem strip_steps_over_entry_after_removed_one:
  "strip_list_loop [] batch_two_null = Inr [JObj [(''b'', JNull)]]
   \<and> spec_strip_list batch_two_null = []
   \<and> returned (send_data env_ok batch_two_null sock0) =
        Some ([JObj [(''b'', JNull)]], [], [[JObj [(''b'', JNull)]]])
   \<and> strip_list_loop [] [msg_nested_null] =
        Inr [JObj [(''id'', JInt 5), (''method'', JStr ''POST''),
                   (''params'', JObj [(''data'',
                      JObj [(''state'', JArr [JObj [(''timestamp'', JNull)]])])])]]
   \<and> spec_strip_list [msg_nested_null] = [JObj [(''id'', JInt 5), (''method'', JStr ''POST'')]]"
  by code_simp

text \<open>
  A \<^verbatim>\<open>Value\<close> has no attribute \<^verbatim>\<open>timer\<close> and \<^verbatim>\<open>__getattr__\<close> answers \<^verbatim>\<open>None\<close>, so
  \<^verbatim>\<open>value.timer.is_alive()\<close> raises for every value.
\<close>

lemma close_values_raises: "close_values (v # vs) s = Inl AttributeError"
  by (simp add: Value_getattr_def)

lemma close_devices_raises:
  "\<exists>device\<in>set ds. dev_values device \<noteq> [] \<Longrightarrow> close_devices ds s = Inl AttributeError"
proof (induction ds arbitrary: s)
  case Nil
  then show ?case by simp
next
  case (Cons device ds)
  show ?case
  proof (cases "dev_values device")
    case Nil
    with Cons show ?thesis by simp
  next
    case (Cons v vs)
    then show ?thesis
      using close_values_raises [of v vs s] by (simp del: close_values.simps)
  qed
qed

lemma close_raises_if_any_value:
  "\<exists>device\<in>set (devices (network s)). dev_values device \<noteq> [] \<Longrightarrow> close s = Inl AttributeError"
  by (simp add: close_def close_devices_raises log_msg_def)

lemma close_devices_without_values:
  "\<forall>device\<in>set ds. dev_values device = [] \<Longrightarrow> close_devices ds s = Inr s"
  by (induction ds arbitrary: s) simp_all

lemma close_without_values:
  assumes "\<forall>device\<in>set (devices (network s)). dev_values device = []"
  shows "\<exists>s'. close s = Inr s' \<and> \<not> connected s' \<and> my_socket s' = None
     \<and> my_raw_socket s' = None
     \<and> set (closed_sockets s') =
         set (closed_sockets s) \<union> set_option (my_socket s) \<union> set_option (my_raw_socket s)
     \<and> (\<exists>s''. close s' = Inr s'' \<and> s'' = log_msg INFO ''Closing connection...'' None s')"
proof -
  let ?s0 = "log_msg INFO ''Closing connection...'' None s"
  from assms have d: "close_devices (devices (network s)) ?s0 = Inr ?s0"
    by (simp add: close_devices_without_values)
  then have c: "close s = Inr
      ((case my_raw_socket s of None \<Rightarrow> (case my_socket s of None \<Rightarrow> ?s0\<lparr>connected := False\<rparr>
            | Some sock \<Rightarrow> ?s0\<lparr>connected := False, closed_sockets := closed_sockets s @ [sock],
                 my_socket := None\<rparr>)
        | Some raw \<Rightarrow> (case my_socket s of None \<Rightarrow> ?s0\<lparr>connected := False,
                 closed_sockets := closed_sockets s @ [raw], my_raw_socket := None\<rparr>
            | Some sock \<Rightarrow> ?s0\<lparr>connected := False, closed_sockets := closed_sockets s @ [sock, raw],
                 my_socket := None, my_raw_socket := None\<rparr>)))"
    by (simp add: close_def log_msg_def Let_def split: option.splits)
  then obtain s' where s': "close s = Inr s'" and f: "\<not> connected s'" "my_socket s' = None"
      "my_raw_socket s' = None" "network s' = network s"
      "set (closed_sockets s') =
         set (closed_sockets s) \<union> set_option (my_socket s) \<union> set_option (my_raw_socket s)"
    by (auto simp: log_msg_def split: option.splits)
  from assms f(4) have "close_devices (devices (network s'))
      (log_msg INFO ''Closing connection...'' None s') = Inr (log_msg INFO ''Closing connection...'' None s')"
    by (simp add: close_devices_without_values log_msg_def)
  with f have "close s' = Inr (log_msg INFO ''Closing connection...'' None s')"
    by (simp add: close_def log_msg_def Let_def)
  with s' f show ?thesis by blast
qed

text \<open>
  Claim C8 fails on a network that has a value. \<^verbatim>\<open>close\<close> reads \<^verbatim>\<open>value.timer\<close>; the class
  defines no such attribute, \<^verbatim>\<open>Value.__getattr__\<close> returns \<^verbatim>\<open>None\<close> for it, and
  \<^verbatim>\<open>None.is_alive()\<close> raises \<^verbatim>\<open>AttributeError\<close> before the sockets are closed or the
  connection is marked disconnected.
\<close>

theorem close_raises_on_network_with_value:
  "close sock_one_value = Inl AttributeError"
  by code_simp

text \<open>
  Claim C4 fails at the choice of the file to trim. \<^verbatim>\<open>get_oldest_log\<close> sorts the file
  names as strings, and the names carry month and day without leading zeros: on
  1 October, with the log of 30 September beside the log of the day, the first name is
  \<^verbatim>\<open>2020-10-1.txt\<close>. With a footprint of 210 bytes over a limit of 200, the message of the
  day is deleted and the older log is kept.
\<close>

theorem evict_oldest_trims_newest_log:
  "get_size env_ok log_two_days (json_dumps_ascii (JArr [JObj [(''id'', JInt 3)]])) = 210
   \<and> map_sum fst fst (get_oldest_log log_two_days) = Inr ''2020-10-1.txt''
   \<and> map_sum fst log_location
       (add_message (recursion_limit env_ok) env_ok (JArr [JObj [(''id'', JInt 3)]]) log_two_days) =
     Inr (Some [(''2020-9-30.zip'', Archive [(''2020-9-30.txt'', ''[{\"id\": 1}] '' @ [CHR 0x0A])]),
                (''2020-10-1.txt'', Plain (''[{\"id\": 3}] '' @ [CHR 0x0A]))])"
  by code_simp

text \<open>
  The rest of the overflow policy: drop-newest leaves every file as it is, and the first
  step of evict-oldest trims the file \<^verbatim>\<open>get_oldest_log\<close> names and calls \<^verbatim>\<open>add_message\<close>
  again.
\<close>

lemma add_message_drop_newest:
  assumes "log_offline ml" and "log_data_limit ml < int (get_size e ml (json_dumps e data))"
    and "limit_action ml = REMOVE_RECENT"
  shows "add_message (Suc depth) e data ml =
     Inr (ml_log DEBUG ''Not adding data'' (ml_log DEBUG ''Log limit exeeded.'' ml))"
  using assms by (simp add: Let_def ml_log_def REMOVE_OLD_def REMOVE_RECENT_def)

lemma add_message_evict_step:
  assumes "log_offline ml" and "log_data_limit ml < int (get_size e ml (json_dumps e data))"
    and "limit_action ml = REMOVE_OLD"
    and "get_oldest_log (ml_log DEBUG ''Log limit exeeded.'' ml) = Inr (file_name, ml1)"
    and "remove_first_lines e file_name ml1 = Inr ml2"
  shows "add_message (Suc depth) e data ml = add_message depth e data ml2"
  using assms by (simp add: Let_def ml_log_def)

text \<open>
  With no log file to trim, \<^verbatim>\<open>all_logs[0]\<close> raises \<^verbatim>\<open>IndexError\<close>, which \<^verbatim>\<open>add_message\<close>
  does not catch: so ends the first call for a message of 80 characters under a limit of
  100 bytes, \<^verbatim>\<open>sys.getsizeof\<close> of the string being 129.
\<close>

lemma add_message_nothing_to_trim:
  "length (json_dumps_ascii batch_80) = 80
   \<and> map_sum fst id (add_message (recursion_limit env_ok) env_ok batch_80 log0) = Inl IndexError"
  by code_simp

text \<open>
  Two messages that \<^verbatim>\<open>sys.getsizeof\<close> measures at 80 bytes (31 characters), limit 100: the
  second call removes the line of the first and then writes; 33 bytes remain.
\<close>

lemma add_message_two_messages_of_size_80:
  "getsizeof env_ok (json_dumps_ascii batch_31a) = 80
   \<and> getsizeof env_ok (json_dumps_ascii batch_31b) = 80
   \<and> map_sum fst log_location (add_message_twice env_ok batch_31a batch_31b log0) =
       Inr (Some [(''2020-10-1.txt'', Plain (json_dumps_ascii batch_31b @ '' '' @ [CHR 0x0A]))])
   \<and> map_sum fst (\<lambda>ml. get_size env_ok ml []) (add_message_twice env_ok batch_31a batch_31b log0)
       = Inr (33 + 49)"
  by code_simp

end
